theory Spec2Isabelle
  imports Main "HOL-Library.AList"
begin

section \<open>JavaScript values\<close>

text \<open>
  The route handlers read fields of \<open>req.body\<close>, cells of spreadsheet rows and
  results of remote calls, and combine them with \<open>||\<close>, \<open>!\<close> and \<open>===\<close>.
  A field of a JSON body is text, a number, a boolean or null, and it is
  \<open>undefined\<close> when the body does not have it. Numbers are integers here; a
  fractional number is truthy like every non-zero integer. Arrays and objects as field
  values (always truthy) are left out.
\<close>

datatype jsval = JUndefined | JNull | JBool bool | JNum int | JStr string

text \<open>What \<open>if (v)\<close>, \<open>!v\<close> and \<open>v || w\<close> test.\<close>

fun truthy :: "jsval \<Rightarrow> bool" where
  "truthy JUndefined = False"
| "truthy JNull = False"
| "truthy (JBool b) = b"
| "truthy (JNum n) = (n \<noteq> 0)"
| "truthy (JStr s) = (s \<noteq> [])"

text \<open>\<open>a || b\<close>: the left operand when it is truthy, the right one otherwise.\<close>

definition js_or :: "jsval \<Rightarrow> jsval \<Rightarrow> jsval" where
  "js_or a b = (if truthy a then a else b)"

text \<open>Decimal digits of a natural number, for numbers put into text.\<close>

fun digits :: "nat \<Rightarrow> string" where
  "digits n = (if n < 10 then [''0123456789'' ! n]
               else digits (n div 10) @ [''0123456789'' ! (n mod 10)])"

declare digits.simps [simp del]

definition show_int :: "int \<Rightarrow> string" where
  "show_int n = (if n < 0 then CHR ''-'' # digits (nat (- n)) else digits (nat n))"

text \<open>\<open>String(v)\<close>, as a template literal \<open>`${v}`\<close> renders a value.\<close>

fun js_string :: "jsval \<Rightarrow> string" where
  "js_string JUndefined = ''undefined''"
| "js_string JNull = ''null''"
| "js_string (JBool b) = (if b then ''true'' else ''false'')"
| "js_string (JNum n) = show_int n"
| "js_string (JStr s) = s"

text \<open>
  A JavaScript object with string keys, in insertion order. \<open>obj[k] = v\<close> replaces
  the value of an existing key in place and adds a new key at the end, which is
  \<open>AList.update\<close>. Reading a key the object does not have gives \<open>undefined\<close>.
\<close>

type_synonym obj = "(string \<times> jsval) list"

definition js_get :: "obj \<Rightarrow> string \<Rightarrow> jsval" where
  "js_get ob k = (case map_of ob k of None \<Rightarrow> JUndefined | Some v \<Rightarrow> v)"

text \<open>\<open>{...target, ...src}\<close>: every property of \<open>src\<close> assigned onto \<open>target\<close>.\<close>

definition spread :: "obj \<Rightarrow> obj \<Rightarrow> obj" where
  "spread target src = fold (\<lambda>(k, v) ob. AList.update k v ob) src target"

section \<open>The spreadsheet and the Drive folder\<close>

text \<open>
  The handlers keep no state of their own: every request reads and writes a tab of a
  Google spreadsheet through \<open>sheets.spreadsheets.values\<close> and uploads to a Drive
  folder. The tabs the routes name, each with the spreadsheet of its module:
  \<open>Sheet1\<close> of the bus log, \<open>Sheet1\<close> of the generator log, \<open>Files\<close> and
  \<open>Movements\<close> of the file log, and \<open>Departments\<close>, \<open>Employees\<close>,
  \<open>Students\<close>.
\<close>

datatype tab = BusLog | GeneratorLog | Files | Movements | Departments | Employees | Students

text \<open>
  A row as \<open>values.get\<close> returns it: the text of its cells, left to right. Rows
  of one tab need not have the same length; a row can be shorter than the header row.
  \<open>row[i]\<close> beyond the end of the row is \<open>undefined\<close>.
\<close>

type_synonym row = "string list"

definition cell :: "row \<Rightarrow> nat \<Rightarrow> jsval" where
  "cell r i = (if i < length r then JStr (r ! i) else JUndefined)"

text \<open>
  The ranges the routes ask for: whole columns from column A (\<open>Tab!A:G\<close> is
  \<open>Columns 7\<close>, \<open>Tab!A:A\<close> is \<open>Columns 1\<close>) and one row of them
  (\<open>Tab!A5:G5\<close> is \<open>RowOf 5 7\<close>, rows counted from 1).
\<close>

datatype range = Columns nat | RowOf nat nat

text \<open>Every call a handler makes to the two services, in the order made.\<close>

datatype call =
    ValuesGet tab range
  | ValuesAppend tab "jsval list"
  | ValuesUpdate tab range "jsval list"
  | FilesCreate string
  | PermissionsCreate string

record world =
  tabs :: "tab \<Rightarrow> row list"
  calls :: "call list"

record drive_data =
  file_id :: string
  webViewLink :: string

text \<open>
  What a request finds around it: the clock (\<open>new Date().toISOString()\<close>), the
  identifier \<open>uuidv4()\<close> draws, whether the Sheets service answers the request's
  calls or rejects them, the image \<open>qrcode.toBuffer\<close> renders (none when it
  rejects), and what the two Drive calls of an upload do (\<open>files.create\<close>
  resolves with the new file's data or rejects, \<open>permissions.create\<close>
  resolves or rejects).
\<close>

record env =
  now :: string
  uuid :: string
  sheets_up :: bool
  toBuffer :: "string option"
  files_create :: "drive_data option"
  permissions_create :: bool

text \<open>An awaited remote call either rejects (the \<open>await\<close> throws) or resolves.\<close>

datatype 'a outcome = Rejected | Resolved 'a

text \<open>
  \<open>response.data.values\<close> of a read: the rows of the range, each cut to the
  columns of the range, and \<open>undefined\<close> (\<open>None\<close>) when the range holds no
  data. An empty cell to the left of a filled one reads as the empty text.
\<close>

fun range_values :: "row list \<Rightarrow> range \<Rightarrow> row list option" where
  "range_values rows (Columns n) = (if rows = [] then None else Some (map (take n) rows))"
| "range_values rows (RowOf r n) =
     (if r = 0 \<or> length rows < r \<or> take n (rows ! (r - 1)) = [] then None
      else Some [take n (rows ! (r - 1))])"

definition values_get :: "env \<Rightarrow> world \<Rightarrow> tab \<Rightarrow> range \<Rightarrow> row list option outcome \<times> world" where
  "values_get e w t rg =
     (let w' = w\<lparr>calls := calls w @ [ValuesGet t rg]\<rparr>
      in if sheets_up e then (Resolved (range_values (tabs w t) rg), w') else (Rejected, w'))"

text \<open>
  The text a written value leaves in its cell. The store keeps text as it was entered
  (what the spreadsheet makes of numeric-looking text under \<open>USER_ENTERED\<close> is
  outside this model); \<open>undefined\<close> and \<open>null\<close> leave the cell empty.
\<close>

fun store_cell :: "jsval \<Rightarrow> string" where
  "store_cell JUndefined = []"
| "store_cell JNull = []"
| "store_cell (JBool b) = (if b then ''TRUE'' else ''FALSE'')"
| "store_cell (JNum n) = show_int n"
| "store_cell (JStr s) = s"

text \<open>\<open>values.append\<close>: one more row after the last row of the tab.\<close>

definition values_append :: "env \<Rightarrow> world \<Rightarrow> tab \<Rightarrow> jsval list \<Rightarrow> unit outcome \<times> world" where
  "values_append e w t vs =
     (let w' = w\<lparr>calls := calls w @ [ValuesAppend t vs]\<rparr>
      in if sheets_up e
         then (Resolved (), w'\<lparr>tabs := (tabs w)(t := tabs w t @ [map store_cell vs])\<rparr>)
         else (Rejected, w'))"

text \<open>
  \<open>values.update\<close> of one row: the cells of the range are overwritten, cells to
  the right of it stay, and a row below the last one is reached over empty rows. The
  update handlers name a range of exactly the cells they write (\<open>A:G\<close> for seven
  values), so the range is that of the values. They write \<open>undefined\<close> only
  where the row had no cell, which leaves the cell empty.
\<close>

definition put_row :: "row list \<Rightarrow> nat \<Rightarrow> row \<Rightarrow> row list" where
  "put_row rows r new =
     (if r = 0 then rows
      else if r \<le> length rows then rows[r - 1 := new @ drop (length new) (rows ! (r - 1))]
      else rows @ replicate (r - 1 - length rows) [] @ [new])"

definition values_update :: "env \<Rightarrow> world \<Rightarrow> tab \<Rightarrow> nat \<Rightarrow> jsval list \<Rightarrow> unit outcome \<times> world" where
  "values_update e w t r vs =
     (let w' = w\<lparr>calls := calls w @ [ValuesUpdate t (RowOf r (length vs)) vs]\<rparr>
      in if sheets_up e
         then (Resolved (), w'\<lparr>tabs := (tabs w)(t := put_row (tabs w t) r (map store_cell vs))\<rparr>)
         else (Rejected, w'))"

section \<open>Requests and responses\<close>

text \<open>
  \<open>req.body\<close> as the JSON or form parser leaves it; a field the body does not
  have reads as \<open>undefined\<close>. \<open>req.params\<close> are path segments, text.
\<close>

type_synonym body = obj

datatype data = NoData | Obj obj | Rows "obj list" | History obj "obj list"

text \<open>
  \<open>res.status(n).json({msg, data})\<close> is \<open>(n, Json msg data)\<close>, and
  \<open>res.status(n).send(text)\<close> is \<open>(n, Text text)\<close>.
\<close>

datatype payload = Json string data | Text string

type_synonym response = "nat \<times> payload"

text \<open>The \<open>catch\<close> clause of every handler.\<close>

definition server_error :: response where
  "server_error = (500, Text ''Server Error'')"

section \<open>Finding a row by its identifier\<close>

text \<open>
  \<open>findRowIndexById(sheetName, id)\<close> of \<open>routes/departments.js\<close>, and the two
  local copies in the employee and student update handlers, which are the same text.
  The loop runs over the rows of column A from the first one;
  \<open>scan_rows rows key i\<close> is the loop with \<open>i\<close> rows already passed.
\<close>

fun scan_rows :: "row list \<Rightarrow> string \<Rightarrow> nat \<Rightarrow> int" where
  "scan_rows [] key i = - 1"
| "scan_rows (r # rs) key i =
     (if cell r 0 = JStr key then int i + 1 else scan_rows rs key (Suc i))"

definition findRowIndexById :: "env \<Rightarrow> world \<Rightarrow> tab \<Rightarrow> string \<Rightarrow> int outcome \<times> world" where
  "findRowIndexById e w sheetName key =
     (case values_get e w sheetName (Columns 1) of
        (Rejected, w1) \<Rightarrow> (Rejected, w1)
      | (Resolved rows, w1) \<Rightarrow>
          (Resolved (case rows of None \<Rightarrow> - 1 | Some rs \<Rightarrow> scan_rows rs key 0), w1))"

section \<open>Departments\<close>

text \<open>\<open>POST /api/departments/update/:departmentId\<close>.\<close>

definition departments_update :: "env \<Rightarrow> world \<Rightarrow> string \<Rightarrow> body \<Rightarrow> response \<times> world" where
  "departments_update e w departmentId b =
     (let departmentName = js_get b ''departmentName'';
          description = js_get b ''description'';
          location = js_get b ''location'';
          inChargeEmployeeId = js_get b ''inChargeEmployeeId''
      in case findRowIndexById e w Departments departmentId of
           (Rejected, w1) \<Rightarrow> (server_error, w1)
         | (Resolved rowIndex, w1) \<Rightarrow>
             if rowIndex = - 1 then ((404, Json ''Department not found.'' NoData), w1)
             else
               (case values_get e w1 Departments (RowOf (nat rowIndex) 7) of
                  (Rejected, w2) \<Rightarrow> (server_error, w2)
                | (Resolved None, w2) \<Rightarrow> (server_error, w2)
                | (Resolved (Some []), w2) \<Rightarrow> (server_error, w2)
                | (Resolved (Some (existingData # _)), w2) \<Rightarrow>
                    (let updatedRow =
                       [JStr departmentId,
                        js_or departmentName (cell existingData 1),
                        js_or description (cell existingData 2),
                        js_or location (cell existingData 3),
                        js_or inChargeEmployeeId (cell existingData 4),
                        cell existingData 5,
                        JStr (now e)]
                     in case values_update e w2 Departments (nat rowIndex) updatedRow of
                          (Rejected, w3) \<Rightarrow> (server_error, w3)
                        | (Resolved _, w3) \<Rightarrow>
                            ((200, Json ''Department updated successfully!''
                                    (Obj (spread [(''departmentId'', JStr departmentId)] b))),
                             w3))))"

text \<open>
  The record a list route builds from a row: \<open>headers.forEach((header, index) =>
  { rec[header] = fill(row[index]); })\<close> on an empty object. The department and
  employee lists store \<open>row[index]\<close> itself; the student lists store
  \<open>row[index] || ''\<close>.
\<close>

definition row_record :: "(jsval \<Rightarrow> jsval) \<Rightarrow> row \<Rightarrow> row \<Rightarrow> obj" where
  "row_record fill headers r =
     fold (\<lambda>(header, index) ob. AList.update header (fill (cell r index)) ob)
       (zip headers [0..<length headers]) []"

text \<open>\<open>GET /api/departments/list\<close>.\<close>

definition departments_list :: "env \<Rightarrow> world \<Rightarrow> response \<times> world" where
  "departments_list e w =
     (case values_get e w Departments (Columns 7) of
        (Rejected, w1) \<Rightarrow> (server_error, w1)
      | (Resolved None, w1) \<Rightarrow> ((200, Json ''No departments found.'' (Rows [])), w1)
      | (Resolved (Some rows), w1) \<Rightarrow>
          if length rows \<le> 1 then ((200, Json ''No departments found.'' (Rows [])), w1)
          else
            (let headers = hd rows;
                 departments = map (row_record (\<lambda>v. v) headers) (tl rows)
             in ((200, Json ''Departments retrieved successfully.'' (Rows departments)), w1)))"

text \<open>\<open>POST /api/departments/create\<close>.\<close>

definition departments_create :: "env \<Rightarrow> world \<Rightarrow> body \<Rightarrow> response \<times> world" where
  "departments_create e w b =
     (let departmentName = js_get b ''departmentName'';
          description = js_get b ''description'';
          location = js_get b ''location''
      in if \<not> truthy departmentName \<or> \<not> truthy location
         then ((400, Json ''Department Name and Location are required.'' NoData), w)
         else
           (let departmentId = uuid e;
                timestamp = now e
            in case values_append e w Departments
                      [JStr departmentId, departmentName, js_or description (JStr ''''), location,
                       JStr '''', JStr timestamp, JStr timestamp] of
                 (Rejected, w1) \<Rightarrow> (server_error, w1)
               | (Resolved _, w1) \<Rightarrow>
                   ((201, Json ''Department created successfully!''
                           (Obj [(''departmentId'', JStr departmentId),
                                 (''departmentName'', departmentName)])),
                    w1)))"

section \<open>Employees\<close>

text \<open>\<open>POST /api/employees/create\<close>.\<close>

definition employees_create :: "env \<Rightarrow> world \<Rightarrow> body \<Rightarrow> response \<times> world" where
  "employees_create e w b =
     (let employeeName = js_get b ''employeeName'';
          departmentId = js_get b ''departmentId'';
          email = js_get b ''email'';
          phone = js_get b ''phone'';
          role = js_get b ''role'';
          responsibilities = js_get b ''responsibilities''
      in if \<not> truthy employeeName \<or> \<not> truthy departmentId \<or> \<not> truthy role
         then ((400, Json ''Employee Name, Department ID, and Role are required.'' NoData), w)
         else
           (let employeeId = uuid e;
                timestamp = now e
            in case values_append e w Employees
                      [JStr employeeId, employeeName, departmentId, js_or email (JStr ''''),
                       js_or phone (JStr ''''), role, js_or responsibilities (JStr ''''),
                       JStr timestamp, JStr timestamp] of
                 (Rejected, w1) \<Rightarrow> (server_error, w1)
               | (Resolved _, w1) \<Rightarrow>
                   ((201, Json ''Employee created successfully!''
                           (Obj [(''employeeId'', JStr employeeId),
                                 (''employeeName'', employeeName)])),
                    w1)))"

text \<open>\<open>POST /api/employees/update/:employeeId\<close>.\<close>

definition employees_update :: "env \<Rightarrow> world \<Rightarrow> string \<Rightarrow> body \<Rightarrow> response \<times> world" where
  "employees_update e w employeeId b =
     (let employeeName = js_get b ''employeeName'';
          departmentId = js_get b ''departmentId'';
          email = js_get b ''email'';
          phone = js_get b ''phone'';
          role = js_get b ''role'';
          responsibilities = js_get b ''responsibilities''
      in case findRowIndexById e w Employees employeeId of
           (Rejected, w1) \<Rightarrow> (server_error, w1)
         | (Resolved rowIndex, w1) \<Rightarrow>
             if rowIndex = - 1 then ((404, Json ''Employee not found.'' NoData), w1)
             else
               (case values_get e w1 Employees (RowOf (nat rowIndex) 9) of
                  (Rejected, w2) \<Rightarrow> (server_error, w2)
                | (Resolved None, w2) \<Rightarrow> (server_error, w2)
                | (Resolved (Some []), w2) \<Rightarrow> (server_error, w2)
                | (Resolved (Some (existingData # _)), w2) \<Rightarrow>
                    (let updatedRow =
                       [JStr employeeId,
                        js_or employeeName (cell existingData 1),
                        js_or departmentId (cell existingData 2),
                        js_or email (cell existingData 3),
                        js_or phone (cell existingData 4),
                        js_or role (cell existingData 5),
                        js_or responsibilities (cell existingData 6),
                        cell existingData 7,
                        JStr (now e)]
                     in case values_update e w2 Employees (nat rowIndex) updatedRow of
                          (Rejected, w3) \<Rightarrow> (server_error, w3)
                        | (Resolved _, w3) \<Rightarrow>
                            ((200, Json ''Employee updated successfully!''
                                    (Obj (spread [(''employeeId'', JStr employeeId)] b))),
                             w3))))"

text \<open>\<open>GET /api/employees/list\<close>.\<close>

definition employees_list :: "env \<Rightarrow> world \<Rightarrow> response \<times> world" where
  "employees_list e w =
     (case values_get e w Employees (Columns 9) of
        (Rejected, w1) \<Rightarrow> (server_error, w1)
      | (Resolved None, w1) \<Rightarrow> ((200, Json ''No employees found.'' (Rows [])), w1)
      | (Resolved (Some rows), w1) \<Rightarrow>
          if length rows \<le> 1 then ((200, Json ''No employees found.'' (Rows [])), w1)
          else
            (let headers = hd rows;
                 employees = map (row_record (\<lambda>v. v) headers) (tl rows)
             in ((200, Json ''Employees retrieved successfully.'' (Rows employees)), w1)))"

section \<open>Students\<close>

text \<open>\<open>POST /api/students/create\<close>.\<close>

definition students_create :: "env \<Rightarrow> world \<Rightarrow> body \<Rightarrow> response \<times> world" where
  "students_create e w b =
     (let studentName = js_get b ''studentName'';
          rollNumber = js_get b ''rollNumber'';
          departmentId = js_get b ''departmentId'';
          course = js_get b ''course'';
          yearOfStudy = js_get b ''yearOfStudy'';
          email = js_get b ''email'';
          phone = js_get b ''phone''
      in if \<not> truthy studentName \<or> \<not> truthy rollNumber \<or> \<not> truthy departmentId
            \<or> \<not> truthy course \<or> \<not> truthy yearOfStudy
         then ((400, Json ''Student Name, Roll Number, Department, Course, and Year of Study are required.''
                      NoData), w)
         else
           (let studentId = uuid e;
                timestamp = now e
            in case values_append e w Students
                      [JStr studentId, studentName, rollNumber, departmentId, course, yearOfStudy,
                       js_or email (JStr ''''), js_or phone (JStr ''''),
                       JStr timestamp, JStr timestamp] of
                 (Rejected, w1) \<Rightarrow> (server_error, w1)
               | (Resolved _, w1) \<Rightarrow>
                   ((201, Json ''Student created successfully!''
                           (Obj [(''studentId'', JStr studentId),
                                 (''studentName'', studentName),
                                 (''rollNumber'', rollNumber)])),
                    w1)))"

text \<open>\<open>POST /api/students/update/:studentId\<close>.\<close>

definition students_update :: "env \<Rightarrow> world \<Rightarrow> string \<Rightarrow> body \<Rightarrow> response \<times> world" where
  "students_update e w studentId b =
     (let studentName = js_get b ''studentName'';
          rollNumber = js_get b ''rollNumber'';
          departmentId = js_get b ''departmentId'';
          course = js_get b ''course'';
          yearOfStudy = js_get b ''yearOfStudy'';
          email = js_get b ''email'';
          phone = js_get b ''phone''
      in case findRowIndexById e w Students studentId of
           (Rejected, w1) \<Rightarrow> (server_error, w1)
         | (Resolved rowIndex, w1) \<Rightarrow>
             if rowIndex = - 1 then ((404, Json ''Student not found.'' NoData), w1)
             else
               (case values_get e w1 Students (RowOf (nat rowIndex) 10) of
                  (Rejected, w2) \<Rightarrow> (server_error, w2)
                | (Resolved None, w2) \<Rightarrow> (server_error, w2)
                | (Resolved (Some []), w2) \<Rightarrow> (server_error, w2)
                | (Resolved (Some (existingData # _)), w2) \<Rightarrow>
                    (let updatedRow =
                       [JStr studentId,
                        js_or studentName (cell existingData 1),
                        js_or rollNumber (cell existingData 2),
                        js_or departmentId (cell existingData 3),
                        js_or course (cell existingData 4),
                        js_or yearOfStudy (cell existingData 5),
                        js_or email (cell existingData 6),
                        js_or phone (cell existingData 7),
                        cell existingData 8,
                        JStr (now e)]
                     in case values_update e w2 Students (nat rowIndex) updatedRow of
                          (Rejected, w3) \<Rightarrow> (server_error, w3)
                        | (Resolved _, w3) \<Rightarrow>
                            ((200, Json ''Student updated successfully!''
                                    (Obj (spread [(''studentId'', JStr studentId)] b))),
                             w3))))"

text \<open>\<open>GET /api/students/list\<close>.\<close>

definition students_list :: "env \<Rightarrow> world \<Rightarrow> response \<times> world" where
  "students_list e w =
     (case values_get e w Students (Columns 10) of
        (Rejected, w1) \<Rightarrow> (server_error, w1)
      | (Resolved None, w1) \<Rightarrow> ((200, Json ''No students found.'' (Rows [])), w1)
      | (Resolved (Some rows), w1) \<Rightarrow>
          if length rows \<le> 1 then ((200, Json ''No students found.'' (Rows [])), w1)
          else
            (let headers = hd rows;
                 students = map (row_record (\<lambda>v. js_or v (JStr '''')) headers) (tl rows)
             in ((200, Json ''Students retrieved successfully.'' (Rows students)), w1)))"

text \<open>
  \<open>headers.indexOf(x)\<close>: the index of the first element equal to \<open>x\<close>, and
  \<open>-1\<close> when there is none; \<open>index_from hs x i\<close> searches with \<open>i\<close>
  elements already passed.
\<close>

fun index_from :: "string list \<Rightarrow> string \<Rightarrow> nat \<Rightarrow> int" where
  "index_from [] x i = - 1"
| "index_from (h # hs) x i = (if h = x then int i else index_from hs x (Suc i))"

definition indexOf :: "string list \<Rightarrow> string \<Rightarrow> int" where
  "indexOf hs x = index_from hs x 0"

text \<open>\<open>GET /api/students/list/:departmentId\<close>.\<close>

definition students_list_by_department :: "env \<Rightarrow> world \<Rightarrow> string \<Rightarrow> response \<times> world" where
  "students_list_by_department e w departmentId =
     (case values_get e w Students (Columns 10) of
        (Rejected, w1) \<Rightarrow> (server_error, w1)
      | (Resolved None, w1) \<Rightarrow> ((200, Json ''No students found.'' (Rows [])), w1)
      | (Resolved (Some rows), w1) \<Rightarrow>
          if length rows \<le> 1 then ((200, Json ''No students found.'' (Rows [])), w1)
          else
            (let headers = hd rows;
                 departmentIdIndex = indexOf headers ''DepartmentID''
             in if departmentIdIndex = - 1
                then ((500, Json (CHR 0x22 # ''DepartmentID'' @ CHR 0x22 # '' header not found in sheet.'')
                             NoData), w1)
                else
                  (let students =
                         map (row_record (\<lambda>v. js_or v (JStr '''')) headers)
                           (filter (\<lambda>r. cell r (nat departmentIdIndex) = JStr departmentId) (tl rows))
                   in ((200, Json (''Found '' @ digits (length students)
                                   @ '' students for the specified department.'')
                               (Rows students)), w1))))"

section \<open>Uploads to Drive\<close>

text \<open>
  \<open>req.file\<close> as multer leaves it in memory, and the QR image the file log builds.
\<close>

record upload_file =
  buffer :: string
  originalname :: string
  mimetype :: string

text \<open>
  \<open>uploadToGoogleDrive(fileObject)\<close>, the same text in the bus log, the generator
  log and the file log: create the file, make it readable by anyone, return its data;
  \<open>null\<close> when either call rejects.
\<close>

definition uploadToGoogleDrive :: "env \<Rightarrow> world \<Rightarrow> upload_file \<Rightarrow> drive_data option \<times> world" where
  "uploadToGoogleDrive e w fileObject =
     (let w1 = w\<lparr>calls := calls w @ [FilesCreate (originalname fileObject)]\<rparr>
      in case files_create e of
           None \<Rightarrow> (None, w1)
         | Some d \<Rightarrow>
             (let w2 = w1\<lparr>calls := calls w1 @ [PermissionsCreate (file_id d)]\<rparr>
              in if permissions_create e then (Some d, w2) else (None, w2)))"

section \<open>Bus log\<close>

text \<open>\<open>POST /api/buslog/start-trip\<close>.\<close>

definition buslog_start_trip :: "env \<Rightarrow> world \<Rightarrow> body \<Rightarrow> upload_file option \<Rightarrow> response \<times> world" where
  "buslog_start_trip e w b dashboardPhotoFile =
     (let startingKm = js_get b ''startingKm'';
          tripId = js_get b ''tripId''
      in if \<not> truthy startingKm \<or> \<not> truthy tripId
         then ((400, Json ''Starting KM and Trip ID are required.'' NoData), w)
         else
           (case dashboardPhotoFile of
              None \<Rightarrow> ((400, Json ''Dashboard photo is required.'' NoData), w)
            | Some f \<Rightarrow>
                (case uploadToGoogleDrive e w f of
                   (None, w1) \<Rightarrow>
                     ((500, Json ''Failed to upload image to Google Drive.'' NoData), w1)
                 | (Some driveResponse, w1) \<Rightarrow>
                     (case values_append e w1 BusLog
                             [JStr (now e), JStr ''START'', tripId, startingKm,
                              JStr (webViewLink driveResponse)] of
                        (Rejected, w2) \<Rightarrow> (server_error, w2)
                      | (Resolved _, w2) \<Rightarrow>
                          ((201, Json ''Trip started successfully!''
                                  (Obj [(''tripId'', tripId), (''startingKm'', startingKm),
                                        (''photoUrl'', JStr (webViewLink driveResponse))])),
                           w2)))))"

text \<open>\<open>POST /api/buslog/end-trip\<close>.\<close>

definition buslog_end_trip :: "env \<Rightarrow> world \<Rightarrow> body \<Rightarrow> upload_file option \<Rightarrow> response \<times> world" where
  "buslog_end_trip e w b dashboardPhotoFile =
     (let endingKm = js_get b ''endingKm'';
          remarks = js_get b ''remarks'';
          tripId = js_get b ''tripId''
      in if \<not> truthy endingKm \<or> \<not> truthy tripId
         then ((400, Json ''Ending KM and Trip ID are required.'' NoData), w)
         else
           (case dashboardPhotoFile of
              None \<Rightarrow> ((400, Json ''Dashboard photo is required.'' NoData), w)
            | Some f \<Rightarrow>
                (case uploadToGoogleDrive e w f of
                   (None, w1) \<Rightarrow>
                     ((500, Json ''Failed to upload image to Google Drive.'' NoData), w1)
                 | (Some driveResponse, w1) \<Rightarrow>
                     (case values_append e w1 BusLog
                             [JStr (now e), JStr ''END'', tripId, endingKm,
                              JStr (webViewLink driveResponse),
                              JStr '''', JStr '''', JStr '''', JStr '''', JStr '''',
                              js_or remarks (JStr '''')] of
                        (Rejected, w2) \<Rightarrow> (server_error, w2)
                      | (Resolved _, w2) \<Rightarrow>
                          ((200, Json ''Trip ended successfully!''
                                  (Obj [(''tripId'', tripId), (''endingKm'', endingKm),
                                        (''photoUrl'', JStr (webViewLink driveResponse))])),
                           w2)))))"

text \<open>\<open>POST /api/buslog/create-trip\<close>.\<close>

definition buslog_create_trip :: "env \<Rightarrow> world \<Rightarrow> body \<Rightarrow> response \<times> world" where
  "buslog_create_trip e w b =
     (let tripId = js_get b ''tripId'';
          startLocation = js_get b ''startLocation'';
          endLocation = js_get b ''endLocation'';
          driverId = js_get b ''driverId'';
          startTime = js_get b ''startTime'';
          endTime = js_get b ''endTime''
      in if \<not> truthy tripId \<or> \<not> truthy startLocation \<or> \<not> truthy endLocation
            \<or> \<not> truthy driverId \<or> \<not> truthy startTime \<or> \<not> truthy endTime
         then ((400, Json ''Please provide all required trip details.'' NoData), w)
         else
           (case values_append e w BusLog
                   [JStr (now e), JStr ''CREATE'', tripId, JStr '''', JStr '''',
                    startLocation, endLocation, driverId, startTime, endTime] of
              (Rejected, w1) \<Rightarrow> (server_error, w1)
            | (Resolved _, w1) \<Rightarrow> ((201, Json ''Trip created successfully!'' (Obj b)), w1)))"

section \<open>Generator log\<close>

text \<open>\<open>POST /api/generatorlog/start-run\<close>.\<close>

definition generatorlog_start_run :: "env \<Rightarrow> world \<Rightarrow> body \<Rightarrow> upload_file option \<Rightarrow> response \<times> world" where
  "generatorlog_start_run e w b photoFile =
     (let startingFuelLevel = js_get b ''startingFuelLevel'';
          runId = js_get b ''runId''
      in if \<not> truthy startingFuelLevel \<or> \<not> truthy runId
         then ((400, Json ''Starting Fuel Level and Run ID are required.'' NoData), w)
         else
           (case photoFile of
              None \<Rightarrow> ((400, Json ''Control panel photo is required.'' NoData), w)
            | Some f \<Rightarrow>
                (case uploadToGoogleDrive e w f of
                   (None, w1) \<Rightarrow>
                     ((500, Json ''Failed to upload image to Google Drive.'' NoData), w1)
                 | (Some driveResponse, w1) \<Rightarrow>
                     (case values_append e w1 GeneratorLog
                             [JStr (now e), JStr ''START'', runId, startingFuelLevel,
                              JStr (webViewLink driveResponse)] of
                        (Rejected, w2) \<Rightarrow> (server_error, w2)
                      | (Resolved _, w2) \<Rightarrow>
                          ((201, Json ''Generator run started successfully!''
                                  (Obj [(''runId'', runId),
                                        (''startingFuelLevel'', startingFuelLevel),
                                        (''photoUrl'', JStr (webViewLink driveResponse))])),
                           w2)))))"

text \<open>\<open>POST /api/generatorlog/end-run\<close>.\<close>

definition generatorlog_end_run :: "env \<Rightarrow> world \<Rightarrow> body \<Rightarrow> upload_file option \<Rightarrow> response \<times> world" where
  "generatorlog_end_run e w b photoFile =
     (let endingFuelLevel = js_get b ''endingFuelLevel'';
          remarks = js_get b ''remarks'';
          runId = js_get b ''runId''
      in if \<not> truthy endingFuelLevel \<or> \<not> truthy runId
         then ((400, Json ''Ending Fuel Level and Run ID are required.'' NoData), w)
         else
           (case photoFile of
              None \<Rightarrow> ((400, Json ''Control panel photo is required.'' NoData), w)
            | Some f \<Rightarrow>
                (case uploadToGoogleDrive e w f of
                   (None, w1) \<Rightarrow>
                     ((500, Json ''Failed to upload image to Google Drive.'' NoData), w1)
                 | (Some driveResponse, w1) \<Rightarrow>
                     (case values_append e w1 GeneratorLog
                             [JStr (now e), JStr ''END'', runId, endingFuelLevel,
                              JStr (webViewLink driveResponse),
                              JStr '''', JStr '''', JStr '''', JStr '''',
                              js_or remarks (JStr '''')] of
                        (Rejected, w2) \<Rightarrow> (server_error, w2)
                      | (Resolved _, w2) \<Rightarrow>
                          ((200, Json ''Generator run ended successfully!''
                                  (Obj [(''runId'', runId),
                                        (''endingFuelLevel'', endingFuelLevel),
                                        (''photoUrl'', JStr (webViewLink driveResponse))])),
                           w2)))))"

text \<open>\<open>POST /api/generatorlog/create-log\<close>.\<close>

definition generatorlog_create_log :: "env \<Rightarrow> world \<Rightarrow> body \<Rightarrow> response \<times> world" where
  "generatorlog_create_log e w b =
     (let runId = js_get b ''runId'';
          location = js_get b ''location'';
          operatorId = js_get b ''operatorId'';
          scheduledStartTime = js_get b ''scheduledStartTime'';
          scheduledEndTime = js_get b ''scheduledEndTime''
      in if \<not> truthy runId \<or> \<not> truthy location \<or> \<not> truthy operatorId
            \<or> \<not> truthy scheduledStartTime \<or> \<not> truthy scheduledEndTime
         then ((400, Json ''Please provide all required log details.'' NoData), w)
         else
           (case values_append e w GeneratorLog
                   [JStr (now e), JStr ''CREATE'', runId, JStr '''', JStr '''',
                    location, operatorId, scheduledStartTime, scheduledEndTime] of
              (Rejected, w1) \<Rightarrow> (server_error, w1)
            | (Resolved _, w1) \<Rightarrow>
                ((201, Json ''Generator log created successfully!'' (Obj b)), w1)))"

section \<open>File movement log\<close>

text \<open>\<open>POST /api/filelog/register\<close>.\<close>

definition filelog_register :: "env \<Rightarrow> world \<Rightarrow> body \<Rightarrow> response \<times> world" where
  "filelog_register e w b =
     (let fileName = js_get b ''fileName'';
          description = js_get b ''description'';
          originatingDepartment = js_get b ''originatingDepartment'';
          createdBy = js_get b ''createdBy''
      in if \<not> truthy fileName \<or> \<not> truthy originatingDepartment \<or> \<not> truthy createdBy
         then ((400, Json ''File Name, Originating Department, and Creator are required.'' NoData), w)
         else
           (let fileId = uuid e;
                timestamp = now e
            in case toBuffer e of
                 None \<Rightarrow> (server_error, w)
               | Some qrCodeBuffer \<Rightarrow>
                   (let qrFile = \<lparr>buffer = qrCodeBuffer, originalname = fileId @ ''.png'',
                                  mimetype = ''image/png''\<rparr>
                    in case uploadToGoogleDrive e w qrFile of
                         (None, w1) \<Rightarrow>
                           ((500, Json ''Failed to upload QR Code to Google Drive.'' NoData), w1)
                       | (Some driveResponse, w1) \<Rightarrow>
                           (let newFile =
                                  [(''fileId'', JStr fileId),
                                   (''fileName'', fileName),
                                   (''description'', js_or description (JStr '''')),
                                   (''originatingDepartment'', originatingDepartment),
                                   (''createdBy'', createdBy),
                                   (''createdAt'', JStr timestamp),
                                   (''qrCodeUrl'', JStr (webViewLink driveResponse))]
                            in case values_append e w1 Files
                                      [JStr fileId, fileName, js_get newFile ''description'',
                                       originatingDepartment, createdBy, JStr timestamp,
                                       js_get newFile ''qrCodeUrl''] of
                                 (Rejected, w2) \<Rightarrow> (server_error, w2)
                               | (Resolved _, w2) \<Rightarrow>
                                   (case values_append e w2 Movements
                                           [JStr timestamp, JStr fileId, JStr ''REGISTERED'',
                                            JStr '''', originatingDepartment, createdBy,
                                            JStr '''', JStr '''', JStr ''File created.''] of
                                      (Rejected, w3) \<Rightarrow> (server_error, w3)
                                    | (Resolved _, w3) \<Rightarrow>
                                        ((201, Json ''File registered successfully! A QR code has been generated and saved to Google Drive.''
                                                (Obj newFile)),
                                         w3))))))"

text \<open>\<open>POST /api/filelog/forward\<close>.\<close>

definition filelog_forward :: "env \<Rightarrow> world \<Rightarrow> body \<Rightarrow> response \<times> world" where
  "filelog_forward e w b =
     (let fileId = js_get b ''fileId'';
          fromDepartment = js_get b ''fromDepartment'';
          toDepartment = js_get b ''toDepartment'';
          forwardedBy = js_get b ''forwardedBy'';
          workDone = js_get b ''workDone'';
          workToBeDone = js_get b ''workToBeDone'';
          remarks = js_get b ''remarks''
      in if \<not> truthy fileId \<or> \<not> truthy fromDepartment \<or> \<not> truthy toDepartment
            \<or> \<not> truthy forwardedBy
         then ((400, Json ''File ID, From/To Departments, and User are required.'' NoData), w)
         else
           (case values_append e w Movements
                   [JStr (now e), fileId, JStr ''FORWARDED'', fromDepartment, toDepartment,
                    forwardedBy, workDone, workToBeDone, remarks] of
              (Rejected, w1) \<Rightarrow> (server_error, w1)
            | (Resolved _, w1) \<Rightarrow>
                ((200, Json (''File forwarded to '' @ js_string toDepartment
                             @ ''. Awaiting receipt.'') NoData), w1)))"

text \<open>\<open>POST /api/filelog/receive\<close>.\<close>

definition filelog_receive :: "env \<Rightarrow> world \<Rightarrow> body \<Rightarrow> response \<times> world" where
  "filelog_receive e w b =
     (let fileId = js_get b ''fileId'';
          receivingDepartment = js_get b ''receivingDepartment'';
          receivedBy = js_get b ''receivedBy'';
          remarks = js_get b ''remarks''
      in if \<not> truthy fileId \<or> \<not> truthy receivingDepartment \<or> \<not> truthy receivedBy
         then ((400, Json ''File ID, Receiving Department, and User are required.'' NoData), w)
         else
           (case values_append e w Movements
                   [JStr (now e), fileId, JStr ''RECEIVED'', JStr '''', receivingDepartment,
                    receivedBy, JStr '''', JStr '''', remarks] of
              (Rejected, w1) \<Rightarrow> (server_error, w1)
            | (Resolved _, w1) \<Rightarrow>
                ((200, Json (''File successfully received by '' @ js_string receivingDepartment
                             @ ''.'') NoData), w1)))"

text \<open>\<open>GET /api/filelog/status/:fileId\<close>.\<close>

definition filelog_status :: "env \<Rightarrow> world \<Rightarrow> string \<Rightarrow> response \<times> world" where
  "filelog_status e w fileId =
     (case values_get e w Movements (Columns 9) of
        (Rejected, w1) \<Rightarrow> (server_error, w1)
      | (Resolved values, w1) \<Rightarrow>
          (let rows = (case values of None \<Rightarrow> [] | Some rs \<Rightarrow> rs)
           in if length rows \<le> 1
              then ((404, Json ''No movement history found.'' NoData), w1)
              else
                (let headers = hd rows;
                     fileHistoryRows = filter (\<lambda>r. cell r 1 = JStr fileId) (tl rows)
                 in if length fileHistoryRows = 0
                    then ((404, Json ''File not found or has no history.'' NoData), w1)
                    else
                      (let history = map (row_record (\<lambda>v. v) headers) fileHistoryRows;
                           latestStatus = history ! (length history - 1)
                       in ((200, Json ''File history retrieved successfully.''
                                   (History
                                      [(''fileId'', JStr fileId),
                                       (''currentStatus'', js_get latestStatus ''Action''),
                                       (''currentLocation'', js_get latestStatus ''ToDepartment''),
                                       (''lastUpdated'', js_get latestStatus ''Timestamp'')]
                                      history)), w1)))))"

section \<open>Predicates and example states\<close>

text \<open>
  Row \<open>k\<close> (counted from 0, the header row included) is the first row of \<open>rows\<close>
  whose first cell is \<open>key\<close>.
\<close>

definition first_match :: "row list \<Rightarrow> string \<Rightarrow> nat \<Rightarrow> bool" where
  "first_match rows key k =
     (k < length rows \<and> cell (rows ! k) 0 = JStr key
      \<and> list_all (\<lambda>r. cell r 0 \<noteq> JStr key) (take k rows))"

text \<open>
  A request's surroundings and a small spreadsheet on which the theorems below are run:
  a department tab on which \<open>d1\<close> occurs twice and one row is short, and a student
  tab with a short row.
\<close>

definition example_env :: env where
  "example_env = \<lparr>now = ''2024-05-01T10:00:00.000Z'', uuid = ''f-1'', sheets_up = True,
     toBuffer = Some ''png'',
     files_create = Some \<lparr>file_id = ''drv1'', webViewLink = ''https://drive/1''\<rparr>,
     permissions_create = True\<rparr>"

definition example_departments :: "row list" where
  "example_departments =
     [[''DepartmentID'', ''DepartmentName'', ''Description'', ''Location'',
       ''InChargeEmployeeID'', ''CreatedAt'', ''UpdatedAt''],
      [''d1'', ''Sales'', '''', ''North'', '''', ''t0'', ''t0''],
      [''d2'', ''Ops''],
      [''d1'', ''Copy'', '''', ''South'', '''', ''t1'', ''t1'']]"

definition example_students :: "row list" where
  "example_students =
     [[''StudentID'', ''StudentName'', ''RollNumber'', ''DepartmentID'', ''Course'',
       ''YearOfStudy'', ''Email'', ''Phone'', ''CreatedAt'', ''UpdatedAt''],
      [''s1'', ''Ann'', ''11'', ''D1'', ''CS'', ''2'', ''ann@x.org'', ''555'', ''t0'', ''t0''],
      [''s2'', ''Bob'', ''12'', ''D2'', ''EE''],
      [''s3'', ''Cy'', ''13'', ''D1'', ''CS'', ''1'', '''', '''', ''t1'', ''t1'']]"

definition example_store :: world where
  "example_store =
     \<lparr>tabs = (\<lambda>_. [])(Departments := example_departments, Students := example_students),
      calls = []\<rparr>"

definition example_photo :: upload_file where
  "example_photo = \<lparr>buffer = ''jpeg-bytes'', originalname = ''dash.jpg'', mimetype = ''image/jpeg''\<rparr>"

text \<open>
  The records of a list response: the \<open>data\<close> array of a 200 response, none for
  any other response.
\<close>

definition response_rows :: "response \<Rightarrow> obj list option" where
  "response_rows r =
     (case r of
        (st, Json m (Rows rs)) \<Rightarrow> if st = 200 then Some rs else None
      | _ \<Rightarrow> None)"

text \<open>A record whose \<open>DepartmentID\<close> field is exactly the text \<open>v\<close>.\<close>

definition in_department :: "string \<Rightarrow> obj \<Rightarrow> bool" where
  "in_department v ob = (js_get ob ''DepartmentID'' = JStr v)"

text \<open>
  Student tabs whose header row has no \<open>DepartmentID\<close> column, has two of them,
  and has one that a short row does not reach.
\<close>

definition example_no_department_column :: world where
  "example_no_department_column =
     \<lparr>tabs = (\<lambda>_. [])(Students := [[''StudentID'', ''StudentName''], [''s1'', ''Ann'']]),
      calls = []\<rparr>"

definition example_two_department_columns :: world where
  "example_two_department_columns =
     \<lparr>tabs = (\<lambda>_. [])(Students :=
        [[''StudentID'', ''DepartmentID'', ''DepartmentID''], [''s1'', ''D1'', ''D2'']]),
      calls = []\<rparr>"

definition example_missing_department_cell :: world where
  "example_missing_department_cell =
     \<lparr>tabs = (\<lambda>_. [])(Students :=
        [[''StudentID'', ''StudentName'', ''DepartmentID''], [''s1'', ''Ann'']]),
      calls = []\<rparr>"

text \<open>The \<open>details\<close> and \<open>history\<close> of a status response.\<close>

definition details_of :: "response \<Rightarrow> obj" where
  "details_of r = (case snd r of Json m (History d h) \<Rightarrow> d | _ \<Rightarrow> [])"

definition history_of :: "response \<Rightarrow> obj list" where
  "history_of r = (case snd r of Json m (History d h) \<Rightarrow> h | _ \<Rightarrow> [])"

definition history_actions :: "response \<Rightarrow> jsval list" where
  "history_actions r = map (\<lambda>h. js_get h ''Action'') (history_of r)"

text \<open>A movement log with its header row and one movement of another file.\<close>

definition example_movements :: "row list" where
  "example_movements =
     [[''Timestamp'', ''FileID'', ''Action'', ''FromDepartment'', ''ToDepartment'', ''User'',
       ''WorkDone'', ''WorkToBeDone'', ''Remarks''],
      [''t0'', ''f-0'', ''REGISTERED'', '''', ''Accounts'', ''eve'', '''', '''', ''File created.'']]"

definition example_log :: world where
  "example_log = \<lparr>tabs = (\<lambda>_. [])(Movements := example_movements), calls = []\<rparr>"

section \<open>Properties\<close>

lemma cell_take_1: "cell (take (Suc 0) r) 0 = cell r 0"
  by (cases r) (simp_all add: cell_def)

lemma scan_rows_none:
  "(\<forall>r \<in> set rs. cell r 0 \<noteq> JStr key) \<Longrightarrow> scan_rows rs key i = - 1"
  by (induction rs arbitrary: i) simp_all

lemma scan_rows_first:
  "k < length rs \<Longrightarrow> cell (rs ! k) 0 = JStr key \<Longrightarrow>
   (\<forall>j < k. cell (rs ! j) 0 \<noteq> JStr key) \<Longrightarrow> scan_rows rs key i = int (i + k) + 1"
proof (induction rs arbitrary: i k)
  case Nil
  then show ?case by simp
next
  case (Cons r rs)
  show ?case
  proof (cases k)
    case 0
    with Cons.prems show ?thesis by simp
  next
    case (Suc k')
    from Cons.prems Suc have "cell r 0 \<noteq> JStr key" by auto
    moreover from Cons.prems Suc have "scan_rows rs key (Suc i) = int (Suc i + k') + 1"
      by (intro Cons.IH) auto
    ultimately show ?thesis using Suc by simp
  qed
qed

lemma first_match_before:
  "first_match rows key k \<Longrightarrow> j < k \<Longrightarrow> cell (rows ! j) 0 \<noteq> JStr key"
  by (auto simp: first_match_def list_all_length)

lemma findRowIndexById_found:
  assumes "sheets_up e" and "first_match (tabs w t) key k"
  shows "findRowIndexById e w t key =
           (Resolved (int k + 1), w\<lparr>calls := calls w @ [ValuesGet t (Columns 1)]\<rparr>)"
proof -
  let ?rs = "map (take 1) (tabs w t)"
  from assms(2) have k: "k < length (tabs w t)" and c: "cell (tabs w t ! k) 0 = JStr key"
    by (auto simp: first_match_def)
  from k have ne: "tabs w t \<noteq> []" by auto
  have "scan_rows ?rs key 0 = int (0 + k) + 1"
    using k c first_match_before [OF assms(2)]
    by (intro scan_rows_first) (auto simp: cell_take_1)
  with assms(1) ne show ?thesis
    by (simp add: findRowIndexById_def values_get_def Let_def)
qed

lemma findRowIndexById_absent:
  assumes "sheets_up e" and "\<forall>r \<in> set (tabs w t). cell r 0 \<noteq> JStr key"
  shows "findRowIndexById e w t key =
           (Resolved (- 1), w\<lparr>calls := calls w @ [ValuesGet t (Columns 1)]\<rparr>)"
proof -
  let ?rs = "map (take 1) (tabs w t)"
  from assms(2) have "\<forall>r \<in> set ?rs. cell r 0 \<noteq> JStr key"
    by (auto simp: cell_take_1)
  then have "scan_rows ?rs key 0 = - 1" by (rule scan_rows_none)
  with assms(1) show ?thesis
    by (simp add: findRowIndexById_def values_get_def Let_def)
qed

lemma cell_take: "i < n \<Longrightarrow> cell (take n r) i = cell r i"
  by (simp add: cell_def)

lemma first_match_row:
  assumes "first_match rows key k" and "0 < n"
  shows "range_values rows (RowOf (Suc k) n) = Some [take n (rows ! k)]"
proof -
  from assms(1) have k: "k < length rows" and c: "cell (rows ! k) 0 = JStr key"
    by (auto simp: first_match_def)
  from c have "rows ! k \<noteq> []" by (auto simp: cell_def)
  with assms(2) have "take n (rows ! k) \<noteq> []" by (cases "rows ! k") auto
  with k show ?thesis by simp
qed

lemma departments_update_absent:
  assumes "sheets_up e" and "\<forall>r \<in> set (tabs w Departments). cell r 0 \<noteq> JStr key"
  shows "departments_update e w key b =
           ((404, Json ''Department not found.'' NoData),
            w\<lparr>calls := calls w @ [ValuesGet Departments (Columns 1)]\<rparr>)"
  by (simp add: departments_update_def findRowIndexById_absent [OF assms] Let_def)

lemma employees_update_absent:
  assumes "sheets_up e" and "\<forall>r \<in> set (tabs w Employees). cell r 0 \<noteq> JStr key"
  shows "employees_update e w key b =
           ((404, Json ''Employee not found.'' NoData),
            w\<lparr>calls := calls w @ [ValuesGet Employees (Columns 1)]\<rparr>)"
  by (simp add: employees_update_def findRowIndexById_absent [OF assms] Let_def)

lemma students_update_absent:
  assumes "sheets_up e" and "\<forall>r \<in> set (tabs w Students). cell r 0 \<noteq> JStr key"
  shows "students_update e w key b =
           ((404, Json ''Student not found.'' NoData),
            w\<lparr>calls := calls w @ [ValuesGet Students (Columns 1)]\<rparr>)"
  by (simp add: students_update_def findRowIndexById_absent [OF assms] Let_def)

lemma departments_update_found:
  assumes up: "sheets_up e" and fm: "first_match (tabs w Departments) key k"
  shows "departments_update e w key b =
           ((200, Json ''Department updated successfully!''
                   (Obj (spread [(''departmentId'', JStr key)] b))),
            (let old = tabs w Departments ! k;
                 updatedRow =
                   [JStr key,
                    js_or (js_get b ''departmentName'') (cell old 1),
                    js_or (js_get b ''description'') (cell old 2),
                    js_or (js_get b ''location'') (cell old 3),
                    js_or (js_get b ''inChargeEmployeeId'') (cell old 4),
                    cell old 5,
                    JStr (now e)]
             in w\<lparr>tabs := (tabs w)(Departments :=
                          (tabs w Departments)[k := map store_cell updatedRow @ drop 7 old]),
                  calls := calls w @ [ValuesGet Departments (Columns 1),
                                    ValuesGet Departments (RowOf (Suc k) 7),
                                    ValuesUpdate Departments (RowOf (Suc k) 7) updatedRow]\<rparr>))"
proof -
  from fm have k: "k < length (tabs w Departments)" by (simp add: first_match_def)
  have n: "nat (int k + 1) = Suc k" by simp
  show ?thesis
    using up k
    by (simp add: departments_update_def findRowIndexById_found [OF up fm] Let_def n
          values_get_def first_match_row [OF fm] values_update_def put_row_def cell_take
          eval_nat_numeral del: range_values.simps)
qed

lemma employees_update_found:
  assumes up: "sheets_up e" and fm: "first_match (tabs w Employees) key k"
  shows "employees_update e w key b =
           ((200, Json ''Employee updated successfully!''
                   (Obj (spread [(''employeeId'', JStr key)] b))),
            (let old = tabs w Employees ! k;
                 updatedRow =
                   [JStr key,
                    js_or (js_get b ''employeeName'') (cell old 1),
                    js_or (js_get b ''departmentId'') (cell old 2),
                    js_or (js_get b ''email'') (cell old 3),
                    js_or (js_get b ''phone'') (cell old 4),
                    js_or (js_get b ''role'') (cell old 5),
                    js_or (js_get b ''responsibilities'') (cell old 6),
                    cell old 7,
                    JStr (now e)]
             in w\<lparr>tabs := (tabs w)(Employees :=
                          (tabs w Employees)[k := map store_cell updatedRow @ drop 9 old]),
                  calls := calls w @ [ValuesGet Employees (Columns 1),
                                    ValuesGet Employees (RowOf (Suc k) 9),
                                    ValuesUpdate Employees (RowOf (Suc k) 9) updatedRow]\<rparr>))"
proof -
  from fm have k: "k < length (tabs w Employees)" by (simp add: first_match_def)
  have n: "nat (int k + 1) = Suc k" by simp
  show ?thesis
    using up k
    by (simp add: employees_update_def findRowIndexById_found [OF up fm] Let_def n
          values_get_def first_match_row [OF fm] values_update_def put_row_def cell_take
          eval_nat_numeral del: range_values.simps)
qed

lemma students_update_found:
  assumes up: "sheets_up e" and fm: "first_match (tabs w Students) key k"
  shows "students_update e w key b =
           ((200, Json ''Student updated successfully!''
                   (Obj (spread [(''studentId'', JStr key)] b))),
            (let old = tabs w Students ! k;
                 updatedRow =
                   [JStr key,
                    js_or (js_get b ''studentName'') (cell old 1),
                    js_or (js_get b ''rollNumber'') (cell old 2),
                    js_or (js_get b ''departmentId'') (cell old 3),
                    js_or (js_get b ''course'') (cell old 4),
                    js_or (js_get b ''yearOfStudy'') (cell old 5),
                    js_or (js_get b ''email'') (cell old 6),
                    js_or (js_get b ''phone'') (cell old 7),
                    cell old 8,
                    JStr (now e)]
             in w\<lparr>tabs := (tabs w)(Students :=
                          (tabs w Students)[k := map store_cell updatedRow @ drop 10 old]),
                  calls := calls w @ [ValuesGet Students (Columns 1),
                                    ValuesGet Students (RowOf (Suc k) 10),
                                    ValuesUpdate Students (RowOf (Suc k) 10) updatedRow]\<rparr>))"
proof -
  from fm have k: "k < length (tabs w Students)" by (simp add: first_match_def)
  have n: "nat (int k + 1) = Suc k" by simp
  show ?thesis
    using up k
    by (simp add: students_update_def findRowIndexById_found [OF up fm] Let_def n
          values_get_def first_match_row [OF fm] values_update_def put_row_def cell_take
          eval_nat_numeral del: range_values.simps)
qed

subsection \<open>Finding a row\<close>

text \<open>
  Claim C6. When the Sheets service answers, \<open>findRowIndexById\<close> scans column A
  from the top: it returns \<open>k + 1\<close> for the first row \<open>k\<close> (counted from 0,
  so the header row is row 1) whose first cell equals the key, whatever rows follow,
  and \<open>-1\<close> when no row's first cell equals the key.
\<close>

theorem findRowIndexById_first_match:
  assumes "sheets_up e"
  shows "(k < length (tabs w t) \<and> cell (tabs w t ! k) 0 = JStr key
            \<and> (\<forall>j < k. cell (tabs w t ! j) 0 \<noteq> JStr key)
          \<longrightarrow> fst (findRowIndexById e w t key) = Resolved (int k + 1))
       \<and> ((\<forall>j < length (tabs w t). cell (tabs w t ! j) 0 \<noteq> JStr key)
          \<longrightarrow> fst (findRowIndexById e w t key) = Resolved (- 1))"
proof (intro conjI impI)
  assume h: "k < length (tabs w t) \<and> cell (tabs w t ! k) 0 = JStr key
            \<and> (\<forall>j < k. cell (tabs w t ! j) 0 \<noteq> JStr key)"
  let ?rs = "map (take 1) (tabs w t)"
  from h have ne: "tabs w t \<noteq> []" by auto
  from h have "scan_rows ?rs key 0 = int (0 + k) + 1"
    by (intro scan_rows_first) (auto simp: cell_take_1)
  with assms ne show "fst (findRowIndexById e w t key) = Resolved (int k + 1)"
    by (simp add: findRowIndexById_def values_get_def Let_def)
next
  assume h: "\<forall>j < length (tabs w t). cell (tabs w t ! j) 0 \<noteq> JStr key"
  let ?rs = "map (take 1) (tabs w t)"
  from h have "\<forall>r \<in> set ?rs. cell r 0 \<noteq> JStr key"
    by (auto simp: cell_take_1 in_set_conv_nth)
  then have "scan_rows ?rs key 0 = - 1" by (rule scan_rows_none)
  with assms show "fst (findRowIndexById e w t key) = Resolved (- 1)"
    by (simp add: findRowIndexById_def values_get_def Let_def)
qed

theorem findRowIndexById_first_match_witness:
  "fst (findRowIndexById example_env example_store Departments ''d1'') = Resolved 2
   \<and> fst (findRowIndexById example_env example_store Departments ''d9'') = Resolved (- 1)"
  using findRowIndexById_first_match [of example_env 1 example_store Departments "''d1''"]
        findRowIndexById_first_match [of example_env 0 example_store Departments "''d9''"]
  by (simp add: example_env_def example_store_def example_departments_def cell_def
        less_Suc_eq all_conj_distrib)

subsection \<open>Merge update\<close>

text \<open>
  Claim C1. When the key is found in row \<open>k\<close>, the update handlers of the
  department, student and employee routes answer 200 and write one row back to that
  row: column A and the created-at column hold what the row held, every field column
  holds the request's value when that value is truthy (for text: not empty) and the
  row's cell otherwise, and the last column holds the current time. The tab afterwards
  differs from the tab before in that row only.
\<close>

theorem merge_update_writes_merged_row:
  assumes "sheets_up e"
  shows
    "(first_match (tabs w Departments) key k \<longrightarrow>
        (let old = tabs w Departments ! k;
             keep = (\<lambda>f i. if truthy (js_get b f) then js_get b f else cell old i);
             written = [cell old 0, keep ''departmentName'' 1, keep ''description'' 2,
                        keep ''location'' 3, keep ''inChargeEmployeeId'' 4,
                        cell old 5, JStr (now e)];
             res = departments_update e w key b
         in fst (fst res) = 200
            \<and> calls (snd res) = calls w @ [ValuesGet Departments (Columns 1),
                                            ValuesGet Departments (RowOf (Suc k) 7),
                                            ValuesUpdate Departments (RowOf (Suc k) 7) written]
            \<and> tabs (snd res) = (tabs w)(Departments :=
                  (tabs w Departments)[k := map store_cell written @ drop 7 old])))
   \<and> (first_match (tabs w Students) key k \<longrightarrow>
        (let old = tabs w Students ! k;
             keep = (\<lambda>f i. if truthy (js_get b f) then js_get b f else cell old i);
             written = [cell old 0, keep ''studentName'' 1, keep ''rollNumber'' 2,
                        keep ''departmentId'' 3, keep ''course'' 4, keep ''yearOfStudy'' 5,
                        keep ''email'' 6, keep ''phone'' 7, cell old 8, JStr (now e)];
             res = students_update e w key b
         in fst (fst res) = 200
            \<and> calls (snd res) = calls w @ [ValuesGet Students (Columns 1),
                                            ValuesGet Students (RowOf (Suc k) 10),
                                            ValuesUpdate Students (RowOf (Suc k) 10) written]
            \<and> tabs (snd res) = (tabs w)(Students :=
                  (tabs w Students)[k := map store_cell written @ drop 10 old])))
   \<and> (first_match (tabs w Employees) key k \<longrightarrow>
        (let old = tabs w Employees ! k;
             keep = (\<lambda>f i. if truthy (js_get b f) then js_get b f else cell old i);
             written = [cell old 0, keep ''employeeName'' 1, keep ''departmentId'' 2,
                        keep ''email'' 3, keep ''phone'' 4, keep ''role'' 5,
                        keep ''responsibilities'' 6, cell old 7, JStr (now e)];
             res = employees_update e w key b
         in fst (fst res) = 200
            \<and> calls (snd res) = calls w @ [ValuesGet Employees (Columns 1),
                                            ValuesGet Employees (RowOf (Suc k) 9),
                                            ValuesUpdate Employees (RowOf (Suc k) 9) written]
            \<and> tabs (snd res) = (tabs w)(Employees :=
                  (tabs w Employees)[k := map store_cell written @ drop 9 old])))"
proof (intro conjI impI)
  assume fm: "first_match (tabs w Departments) key k"
  then have c: "cell (tabs w Departments ! k) 0 = JStr key" by (simp add: first_match_def)
  show "let old = tabs w Departments ! k;
             keep = (\<lambda>f i. if truthy (js_get b f) then js_get b f else cell old i);
             written = [cell old 0, keep ''departmentName'' 1, keep ''description'' 2,
                        keep ''location'' 3, keep ''inChargeEmployeeId'' 4,
                        cell old 5, JStr (now e)];
             res = departments_update e w key b
         in fst (fst res) = 200
            \<and> calls (snd res) = calls w @ [ValuesGet Departments (Columns 1),
                                            ValuesGet Departments (RowOf (Suc k) 7),
                                            ValuesUpdate Departments (RowOf (Suc k) 7) written]
            \<and> tabs (snd res) = (tabs w)(Departments :=
                  (tabs w Departments)[k := map store_cell written @ drop 7 old])"
    by (simp add: departments_update_found [OF assms fm] Let_def c js_or_def)
next
  assume fm: "first_match (tabs w Students) key k"
  then have c: "cell (tabs w Students ! k) 0 = JStr key" by (simp add: first_match_def)
  show "let old = tabs w Students ! k;
             keep = (\<lambda>f i. if truthy (js_get b f) then js_get b f else cell old i);
             written = [cell old 0, keep ''studentName'' 1, keep ''rollNumber'' 2,
                        keep ''departmentId'' 3, keep ''course'' 4, keep ''yearOfStudy'' 5,
                        keep ''email'' 6, keep ''phone'' 7, cell old 8, JStr (now e)];
             res = students_update e w key b
         in fst (fst res) = 200
            \<and> calls (snd res) = calls w @ [ValuesGet Students (Columns 1),
                                            ValuesGet Students (RowOf (Suc k) 10),
                                            ValuesUpdate Students (RowOf (Suc k) 10) written]
            \<and> tabs (snd res) = (tabs w)(Students :=
                  (tabs w Students)[k := map store_cell written @ drop 10 old])"
    by (simp add: students_update_found [OF assms fm] Let_def c js_or_def)
next
  assume fm: "first_match (tabs w Employees) key k"
  then have c: "cell (tabs w Employees ! k) 0 = JStr key" by (simp add: first_match_def)
  show "let old = tabs w Employees ! k;
             keep = (\<lambda>f i. if truthy (js_get b f) then js_get b f else cell old i);
             written = [cell old 0, keep ''employeeName'' 1, keep ''departmentId'' 2,
                        keep ''email'' 3, keep ''phone'' 4, keep ''role'' 5,
                        keep ''responsibilities'' 6, cell old 7, JStr (now e)];
             res = employees_update e w key b
         in fst (fst res) = 200
            \<and> calls (snd res) = calls w @ [ValuesGet Employees (Columns 1),
                                            ValuesGet Employees (RowOf (Suc k) 9),
                                            ValuesUpdate Employees (RowOf (Suc k) 9) written]
            \<and> tabs (snd res) = (tabs w)(Employees :=
                  (tabs w Employees)[k := map store_cell written @ drop 9 old])"
    by (simp add: employees_update_found [OF assms fm] Let_def c js_or_def)
qed

theorem merge_update_writes_merged_row_witness:
  "first_match (tabs example_store Departments) ''d1'' 1
   \<and> tabs (snd (departments_update example_env example_store ''d1''
                  [(''location'', JStr ''East''), (''description'', JStr '''')])) Departments ! 1
       = [''d1'', ''Sales'', '''', ''East'', '''', ''t0'', ''2024-05-01T10:00:00.000Z'']
   \<and> first_match (tabs example_store Students) ''s2'' 2
   \<and> tabs (snd (students_update example_env example_store ''s2''
                  [(''course'', JStr ''ME'')])) Students ! 2
       = [''s2'', ''Bob'', ''12'', ''D2'', ''ME'', '''', '''', '''', '''',
          ''2024-05-01T10:00:00.000Z'']"
  using merge_update_writes_merged_row [of example_env example_store "''d1''" 1
          "[(''location'', JStr ''East''), (''description'', JStr '''')]"]
        merge_update_writes_merged_row [of example_env example_store "''s2''" 2
          "[(''course'', JStr ''ME'')]"]
  by (simp add: example_env_def example_store_def example_departments_def
        example_students_def first_match_def cell_def js_get_def Let_def)

text \<open>
  Claim C3. When no row of the tab has the key in column A, the update handlers answer
  404, the tabs afterwards are the tabs before, and the only call made is the read of
  column A.
\<close>

theorem update_absent_key_not_found:
  assumes "sheets_up e"
  shows
    "((\<forall>r \<in> set (tabs w Departments). cell r 0 \<noteq> JStr key) \<longrightarrow>
        fst (departments_update e w key b) = (404, Json ''Department not found.'' NoData)
        \<and> tabs (snd (departments_update e w key b)) = tabs w
        \<and> calls (snd (departments_update e w key b))
            = calls w @ [ValuesGet Departments (Columns 1)])
   \<and> ((\<forall>r \<in> set (tabs w Students). cell r 0 \<noteq> JStr key) \<longrightarrow>
        fst (students_update e w key b) = (404, Json ''Student not found.'' NoData)
        \<and> tabs (snd (students_update e w key b)) = tabs w
        \<and> calls (snd (students_update e w key b))
            = calls w @ [ValuesGet Students (Columns 1)])
   \<and> ((\<forall>r \<in> set (tabs w Employees). cell r 0 \<noteq> JStr key) \<longrightarrow>
        fst (employees_update e w key b) = (404, Json ''Employee not found.'' NoData)
        \<and> tabs (snd (employees_update e w key b)) = tabs w
        \<and> calls (snd (employees_update e w key b))
            = calls w @ [ValuesGet Employees (Columns 1)])"
  using assms
  by (simp add: departments_update_absent students_update_absent employees_update_absent)

theorem update_absent_key_not_found_witness:
  "list_all (\<lambda>r. cell r 0 \<noteq> JStr ''d7'') (tabs example_store Departments)
   \<and> fst (departments_update example_env example_store ''d7'' [(''location'', JStr ''East'')])
       = (404, Json ''Department not found.'' NoData)
   \<and> tabs (snd (departments_update example_env example_store ''d7''
                  [(''location'', JStr ''East'')])) = tabs example_store"
  using update_absent_key_not_found [of example_env example_store "''d7''"
          "[(''location'', JStr ''East'')]"]
  by (simp add: example_env_def example_store_def example_departments_def
        example_students_def cell_def)

subsection \<open>Validation, uploads and appends\<close>

lemma uploadToGoogleDrive_tabs: "tabs (snd (uploadToGoogleDrive e w f)) = tabs w"
  by (simp add: uploadToGoogleDrive_def Let_def split: option.splits)

lemma uploadToGoogleDrive_calls:
  "calls (snd (uploadToGoogleDrive e w f)) =
     calls w @ FilesCreate (originalname f)
       # (case files_create e of None \<Rightarrow> [] | Some d \<Rightarrow> [PermissionsCreate (file_id d)])"
  by (simp add: uploadToGoogleDrive_def Let_def split: option.splits)

text \<open>
  Claim C7. A request that lacks a required field, or the photo a route requires, is
  answered 400 and leaves the world as it was: no call to Drive or Sheets is recorded,
  no tab changes. This holds for the twelve routes that validate their input, whatever
  the two services would have done.
\<close>

theorem validation_before_remote_calls:
  "(\<not> truthy (js_get b ''startingKm'') \<or> \<not> truthy (js_get b ''tripId'') \<or> photo = None
      \<longrightarrow> fst (fst (buslog_start_trip e w b photo)) = 400
          \<and> snd (buslog_start_trip e w b photo) = w)
   \<and> (\<not> truthy (js_get b ''endingKm'') \<or> \<not> truthy (js_get b ''tripId'') \<or> photo = None
      \<longrightarrow> fst (fst (buslog_end_trip e w b photo)) = 400
          \<and> snd (buslog_end_trip e w b photo) = w)
   \<and> (\<not> truthy (js_get b ''tripId'') \<or> \<not> truthy (js_get b ''startLocation'')
        \<or> \<not> truthy (js_get b ''endLocation'') \<or> \<not> truthy (js_get b ''driverId'')
        \<or> \<not> truthy (js_get b ''startTime'') \<or> \<not> truthy (js_get b ''endTime'')
      \<longrightarrow> fst (fst (buslog_create_trip e w b)) = 400
          \<and> snd (buslog_create_trip e w b) = w)
   \<and> (\<not> truthy (js_get b ''startingFuelLevel'') \<or> \<not> truthy (js_get b ''runId'') \<or> photo = None
      \<longrightarrow> fst (fst (generatorlog_start_run e w b photo)) = 400
          \<and> snd (generatorlog_start_run e w b photo) = w)
   \<and> (\<not> truthy (js_get b ''endingFuelLevel'') \<or> \<not> truthy (js_get b ''runId'') \<or> photo = None
      \<longrightarrow> fst (fst (generatorlog_end_run e w b photo)) = 400
          \<and> snd (generatorlog_end_run e w b photo) = w)
   \<and> (\<not> truthy (js_get b ''runId'') \<or> \<not> truthy (js_get b ''location'')
        \<or> \<not> truthy (js_get b ''operatorId'') \<or> \<not> truthy (js_get b ''scheduledStartTime'')
        \<or> \<not> truthy (js_get b ''scheduledEndTime'')
      \<longrightarrow> fst (fst (generatorlog_create_log e w b)) = 400
          \<and> snd (generatorlog_create_log e w b) = w)
   \<and> (\<not> truthy (js_get b ''fileName'') \<or> \<not> truthy (js_get b ''originatingDepartment'')
        \<or> \<not> truthy (js_get b ''createdBy'')
      \<longrightarrow> fst (fst (filelog_register e w b)) = 400
          \<and> snd (filelog_register e w b) = w)
   \<and> (\<not> truthy (js_get b ''fileId'') \<or> \<not> truthy (js_get b ''fromDepartment'')
        \<or> \<not> truthy (js_get b ''toDepartment'') \<or> \<not> truthy (js_get b ''forwardedBy'')
      \<longrightarrow> fst (fst (filelog_forward e w b)) = 400
          \<and> snd (filelog_forward e w b) = w)
   \<and> (\<not> truthy (js_get b ''fileId'') \<or> \<not> truthy (js_get b ''receivingDepartment'')
        \<or> \<not> truthy (js_get b ''receivedBy'')
      \<longrightarrow> fst (fst (filelog_receive e w b)) = 400
          \<and> snd (filelog_receive e w b) = w)
   \<and> (\<not> truthy (js_get b ''departmentName'') \<or> \<not> truthy (js_get b ''location'')
      \<longrightarrow> fst (fst (departments_create e w b)) = 400
          \<and> snd (departments_create e w b) = w)
   \<and> (\<not> truthy (js_get b ''employeeName'') \<or> \<not> truthy (js_get b ''departmentId'')
        \<or> \<not> truthy (js_get b ''role'')
      \<longrightarrow> fst (fst (employees_create e w b)) = 400
          \<and> snd (employees_create e w b) = w)
   \<and> (\<not> truthy (js_get b ''studentName'') \<or> \<not> truthy (js_get b ''rollNumber'')
        \<or> \<not> truthy (js_get b ''departmentId'') \<or> \<not> truthy (js_get b ''course'')
        \<or> \<not> truthy (js_get b ''yearOfStudy'')
      \<longrightarrow> fst (fst (students_create e w b)) = 400
          \<and> snd (students_create e w b) = w)"
proof (intro conjI impI)
  assume "\<not> truthy (js_get b ''startingKm'') \<or> \<not> truthy (js_get b ''tripId'') \<or> photo = None"
  then show "fst (fst (buslog_start_trip e w b photo)) = 400"
    and "snd (buslog_start_trip e w b photo) = w"
    by (auto simp: buslog_start_trip_def Let_def)
next
  assume "\<not> truthy (js_get b ''endingKm'') \<or> \<not> truthy (js_get b ''tripId'') \<or> photo = None"
  then show "fst (fst (buslog_end_trip e w b photo)) = 400"
    and "snd (buslog_end_trip e w b photo) = w"
    by (auto simp: buslog_end_trip_def Let_def)
next
  assume "\<not> truthy (js_get b ''tripId'') \<or> \<not> truthy (js_get b ''startLocation'')
        \<or> \<not> truthy (js_get b ''endLocation'') \<or> \<not> truthy (js_get b ''driverId'')
        \<or> \<not> truthy (js_get b ''startTime'') \<or> \<not> truthy (js_get b ''endTime'')"
  then show "fst (fst (buslog_create_trip e w b)) = 400"
    and "snd (buslog_create_trip e w b) = w"
    by (auto simp: buslog_create_trip_def Let_def)
next
  assume "\<not> truthy (js_get b ''startingFuelLevel'') \<or> \<not> truthy (js_get b ''runId'') \<or> photo = None"
  then show "fst (fst (generatorlog_start_run e w b photo)) = 400"
    and "snd (generatorlog_start_run e w b photo) = w"
    by (auto simp: generatorlog_start_run_def Let_def)
next
  assume "\<not> truthy (js_get b ''endingFuelLevel'') \<or> \<not> truthy (js_get b ''runId'') \<or> photo = None"
  then show "fst (fst (generatorlog_end_run e w b photo)) = 400"
    and "snd (generatorlog_end_run e w b photo) = w"
    by (auto simp: generatorlog_end_run_def Let_def)
next
  assume "\<not> truthy (js_get b ''runId'') \<or> \<not> truthy (js_get b ''location'')
        \<or> \<not> truthy (js_get b ''operatorId'') \<or> \<not> truthy (js_get b ''scheduledStartTime'')
        \<or> \<not> truthy (js_get b ''scheduledEndTime'')"
  then show "fst (fst (generatorlog_create_log e w b)) = 400"
    and "snd (generatorlog_create_log e w b) = w"
    by (auto simp: generatorlog_create_log_def Let_def)
next
  assume "\<not> truthy (js_get b ''fileName'') \<or> \<not> truthy (js_get b ''originatingDepartment'')
        \<or> \<not> truthy (js_get b ''createdBy'')"
  then show "fst (fst (filelog_register e w b)) = 400"
    and "snd (filelog_register e w b) = w"
    by (auto simp: filelog_register_def Let_def)
next
  assume "\<not> truthy (js_get b ''fileId'') \<or> \<not> truthy (js_get b ''fromDepartment'')
        \<or> \<not> truthy (js_get b ''toDepartment'') \<or> \<not> truthy (js_get b ''forwardedBy'')"
  then show "fst (fst (filelog_forward e w b)) = 400"
    and "snd (filelog_forward e w b) = w"
    by (auto simp: filelog_forward_def Let_def)
next
  assume "\<not> truthy (js_get b ''fileId'') \<or> \<not> truthy (js_get b ''receivingDepartment'')
        \<or> \<not> truthy (js_get b ''receivedBy'')"
  then show "fst (fst (filelog_receive e w b)) = 400"
    and "snd (filelog_receive e w b) = w"
    by (auto simp: filelog_receive_def Let_def)
next
  assume "\<not> truthy (js_get b ''departmentName'') \<or> \<not> truthy (js_get b ''location'')"
  then show "fst (fst (departments_create e w b)) = 400"
    and "snd (departments_create e w b) = w"
    by (auto simp: departments_create_def Let_def)
next
  assume "\<not> truthy (js_get b ''employeeName'') \<or> \<not> truthy (js_get b ''departmentId'')
        \<or> \<not> truthy (js_get b ''role'')"
  then show "fst (fst (employees_create e w b)) = 400"
    and "snd (employees_create e w b) = w"
    by (auto simp: employees_create_def Let_def)
next
  assume "\<not> truthy (js_get b ''studentName'') \<or> \<not> truthy (js_get b ''rollNumber'')
        \<or> \<not> truthy (js_get b ''departmentId'') \<or> \<not> truthy (js_get b ''course'')
        \<or> \<not> truthy (js_get b ''yearOfStudy'')"
  then show "fst (fst (students_create e w b)) = 400"
    and "snd (students_create e w b) = w"
    by (auto simp: students_create_def Let_def)
qed

theorem validation_before_remote_calls_witness:
  "buslog_start_trip example_env example_store [(''startingKm'', JStr ''120'')] (Some example_photo)
     = ((400, Json ''Starting KM and Trip ID are required.'' NoData), example_store)
   \<and> buslog_start_trip example_env example_store
        [(''startingKm'', JStr ''120''), (''tripId'', JStr ''T1'')] None
     = ((400, Json ''Dashboard photo is required.'' NoData), example_store)
   \<and> filelog_register example_env example_store
        [(''fileName'', JStr ''Budget''), (''originatingDepartment'', JStr ''''),
         (''createdBy'', JStr ''ann'')]
     = ((400, Json ''File Name, Originating Department, and Creator are required.'' NoData),
        example_store)"
  using validation_before_remote_calls [of "[(''startingKm'', JStr ''120'')]"
          "Some example_photo" example_env example_store]
  by (simp add: buslog_start_trip_def filelog_register_def js_get_def Let_def)

text \<open>
  Claim C8. With all required fields present and the Sheets service answering,
  \<open>/forward\<close> and \<open>/receive\<close> answer 200 and make exactly one call, the append
  of one row to \<open>Movements\<close>. The \<open>Files\<close> tab is never read, so the
  outcome is the same whether or not it holds the file identifier.
\<close>

theorem forward_receive_no_existence_check:
  assumes "sheets_up e"
  shows
    "(truthy (js_get b ''fileId'') \<and> truthy (js_get b ''fromDepartment'')
        \<and> truthy (js_get b ''toDepartment'') \<and> truthy (js_get b ''forwardedBy'')
      \<longrightarrow> (let appended = [JStr (now e), js_get b ''fileId'', JStr ''FORWARDED'',
                             js_get b ''fromDepartment'', js_get b ''toDepartment'',
                             js_get b ''forwardedBy'', js_get b ''workDone'',
                             js_get b ''workToBeDone'', js_get b ''remarks''];
               res = filelog_forward e w b
           in fst (fst res) = 200
              \<and> calls (snd res) = calls w @ [ValuesAppend Movements appended]
              \<and> tabs (snd res) = (tabs w)(Movements :=
                    tabs w Movements @ [map store_cell appended])))
   \<and> (truthy (js_get b ''fileId'') \<and> truthy (js_get b ''receivingDepartment'')
        \<and> truthy (js_get b ''receivedBy'')
      \<longrightarrow> (let appended = [JStr (now e), js_get b ''fileId'', JStr ''RECEIVED'', JStr '''',
                             js_get b ''receivingDepartment'', js_get b ''receivedBy'',
                             JStr '''', JStr '''', js_get b ''remarks''];
               res = filelog_receive e w b
           in fst (fst res) = 200
              \<and> calls (snd res) = calls w @ [ValuesAppend Movements appended]
              \<and> tabs (snd res) = (tabs w)(Movements :=
                    tabs w Movements @ [map store_cell appended])))"
  using assms
  by (simp add: filelog_forward_def filelog_receive_def values_append_def Let_def)

theorem forward_receive_no_existence_check_witness:
  "tabs example_store Files = []
   \<and> fst (filelog_forward example_env example_store
        [(''fileId'', JStr ''no-such-file''), (''fromDepartment'', JStr ''A''),
         (''toDepartment'', JStr ''B''), (''forwardedBy'', JStr ''ann'')])
       = (200, Json ''File forwarded to B. Awaiting receipt.'' NoData)
   \<and> tabs (snd (filelog_forward example_env example_store
        [(''fileId'', JStr ''no-such-file''), (''fromDepartment'', JStr ''A''),
         (''toDepartment'', JStr ''B''), (''forwardedBy'', JStr ''ann'')])) Movements
       = [[''2024-05-01T10:00:00.000Z'', ''no-such-file'', ''FORWARDED'', ''A'', ''B'', ''ann'',
           '''', '''', '''']]
   \<and> fst (filelog_receive example_env example_store
        [(''fileId'', JStr ''no-such-file''), (''receivingDepartment'', JStr ''B''),
         (''receivedBy'', JStr ''bob'')])
       = (200, Json ''File successfully received by B.'' NoData)"
  using forward_receive_no_existence_check [of example_env
          "[(''fileId'', JStr ''no-such-file''), (''fromDepartment'', JStr ''A''),
            (''toDepartment'', JStr ''B''), (''forwardedBy'', JStr ''ann'')]" example_store]
        forward_receive_no_existence_check [of example_env
          "[(''fileId'', JStr ''no-such-file''), (''receivingDepartment'', JStr ''B''),
            (''receivedBy'', JStr ''bob'')]" example_store]
  by (simp add: example_env_def example_store_def filelog_forward_def filelog_receive_def
        values_append_def js_get_def Let_def)

text \<open>
  Claim C9. When a request passes validation and \<open>uploadToGoogleDrive\<close> returns
  \<open>null\<close>, the handler answers 500 with a JSON message, no tab changes, and the
  only calls recorded are those of the upload itself: no row is appended. This holds
  for the bus log and generator log start and end routes and for \<open>/register\<close>.
\<close>

theorem failed_upload_appends_nothing:
  "(truthy (js_get b ''startingKm'') \<and> truthy (js_get b ''tripId'')
      \<and> fst (uploadToGoogleDrive e w f) = None
    \<longrightarrow> fst (buslog_start_trip e w b (Some f))
          = (500, Json ''Failed to upload image to Google Drive.'' NoData)
        \<and> tabs (snd (buslog_start_trip e w b (Some f))) = tabs w
        \<and> calls (snd (buslog_start_trip e w b (Some f)))
            = calls w @ FilesCreate (originalname f)
                # (case files_create e of None \<Rightarrow> []
                   | Some d \<Rightarrow> [PermissionsCreate (file_id d)]))
   \<and> (truthy (js_get b ''endingKm'') \<and> truthy (js_get b ''tripId'')
      \<and> fst (uploadToGoogleDrive e w f) = None
    \<longrightarrow> fst (buslog_end_trip e w b (Some f))
          = (500, Json ''Failed to upload image to Google Drive.'' NoData)
        \<and> tabs (snd (buslog_end_trip e w b (Some f))) = tabs w
        \<and> calls (snd (buslog_end_trip e w b (Some f)))
            = calls w @ FilesCreate (originalname f)
                # (case files_create e of None \<Rightarrow> []
                   | Some d \<Rightarrow> [PermissionsCreate (file_id d)]))
   \<and> (truthy (js_get b ''startingFuelLevel'') \<and> truthy (js_get b ''runId'')
      \<and> fst (uploadToGoogleDrive e w f) = None
    \<longrightarrow> fst (generatorlog_start_run e w b (Some f))
          = (500, Json ''Failed to upload image to Google Drive.'' NoData)
        \<and> tabs (snd (generatorlog_start_run e w b (Some f))) = tabs w
        \<and> calls (snd (generatorlog_start_run e w b (Some f)))
            = calls w @ FilesCreate (originalname f)
                # (case files_create e of None \<Rightarrow> []
                   | Some d \<Rightarrow> [PermissionsCreate (file_id d)]))
   \<and> (truthy (js_get b ''endingFuelLevel'') \<and> truthy (js_get b ''runId'')
      \<and> fst (uploadToGoogleDrive e w f) = None
    \<longrightarrow> fst (generatorlog_end_run e w b (Some f))
          = (500, Json ''Failed to upload image to Google Drive.'' NoData)
        \<and> tabs (snd (generatorlog_end_run e w b (Some f))) = tabs w
        \<and> calls (snd (generatorlog_end_run e w b (Some f)))
            = calls w @ FilesCreate (originalname f)
                # (case files_create e of None \<Rightarrow> []
                   | Some d \<Rightarrow> [PermissionsCreate (file_id d)]))
   \<and> (truthy (js_get b ''fileName'') \<and> truthy (js_get b ''originatingDepartment'')
      \<and> truthy (js_get b ''createdBy'') \<and> toBuffer e = Some png
      \<and> fst (uploadToGoogleDrive e w
               \<lparr>buffer = png, originalname = uuid e @ ''.png'', mimetype = ''image/png''\<rparr>) = None
    \<longrightarrow> fst (filelog_register e w b)
          = (500, Json ''Failed to upload QR Code to Google Drive.'' NoData)
        \<and> tabs (snd (filelog_register e w b)) = tabs w
        \<and> calls (snd (filelog_register e w b))
            = calls w @ FilesCreate (uuid e @ ''.png'')
                # (case files_create e of None \<Rightarrow> []
                   | Some d \<Rightarrow> [PermissionsCreate (file_id d)]))"
proof (intro conjI impI)
    assume h: "truthy (js_get b ''startingKm'') \<and> truthy (js_get b ''tripId'')
      \<and> fst (uploadToGoogleDrive e w f) = None"
    then have r: "buslog_start_trip e w b (Some f)
        = ((500, Json ''Failed to upload image to Google Drive.'' NoData),
           snd (uploadToGoogleDrive e w f))"
      by (auto simp: buslog_start_trip_def Let_def split: prod.splits option.splits)
    show "fst (buslog_start_trip e w b (Some f))
          = (500, Json ''Failed to upload image to Google Drive.'' NoData)"
      and "tabs (snd (buslog_start_trip e w b (Some f))) = tabs w"
      and "calls (snd (buslog_start_trip e w b (Some f)))
            = calls w @ FilesCreate (originalname f)
                # (case files_create e of None \<Rightarrow> []
                   | Some d \<Rightarrow> [PermissionsCreate (file_id d)])"
      by (simp_all add: r uploadToGoogleDrive_tabs uploadToGoogleDrive_calls)
  next
    assume h: "truthy (js_get b ''endingKm'') \<and> truthy (js_get b ''tripId'')
      \<and> fst (uploadToGoogleDrive e w f) = None"
    then have r: "buslog_end_trip e w b (Some f)
        = ((500, Json ''Failed to upload image to Google Drive.'' NoData),
           snd (uploadToGoogleDrive e w f))"
      by (auto simp: buslog_end_trip_def Let_def split: prod.splits option.splits)
    show "fst (buslog_end_trip e w b (Some f))
          = (500, Json ''Failed to upload image to Google Drive.'' NoData)"
      and "tabs (snd (buslog_end_trip e w b (Some f))) = tabs w"
      and "calls (snd (buslog_end_trip e w b (Some f)))
            = calls w @ FilesCreate (originalname f)
                # (case files_create e of None \<Rightarrow> []
                   | Some d \<Rightarrow> [PermissionsCreate (file_id d)])"
      by (simp_all add: r uploadToGoogleDrive_tabs uploadToGoogleDrive_calls)
  next
    assume h: "truthy (js_get b ''startingFuelLevel'') \<and> truthy (js_get b ''runId'')
      \<and> fst (uploadToGoogleDrive e w f) = None"
    then have r: "generatorlog_start_run e w b (Some f)
        = ((500, Json ''Failed to upload image to Google Drive.'' NoData),
           snd (uploadToGoogleDrive e w f))"
      by (auto simp: generatorlog_start_run_def Let_def split: prod.splits option.splits)
    show "fst (generatorlog_start_run e w b (Some f))
          = (500, Json ''Failed to upload image to Google Drive.'' NoData)"
      and "tabs (snd (generatorlog_start_run e w b (Some f))) = tabs w"
      and "calls (snd (generatorlog_start_run e w b (Some f)))
            = calls w @ FilesCreate (originalname f)
                # (case files_create e of None \<Rightarrow> []
                   | Some d \<Rightarrow> [PermissionsCreate (file_id d)])"
      by (simp_all add: r uploadToGoogleDrive_tabs uploadToGoogleDrive_calls)
  next
    assume h: "truthy (js_get b ''endingFuelLevel'') \<and> truthy (js_get b ''runId'')
      \<and> fst (uploadToGoogleDrive e w f) = None"
    then have r: "generatorlog_end_run e w b (Some f)
        = ((500, Json ''Failed to upload image to Google Drive.'' NoData),
           snd (uploadToGoogleDrive e w f))"
      by (auto simp: generatorlog_end_run_def Let_def split: prod.splits option.splits)
    show "fst (generatorlog_end_run e w b (Some f))
          = (500, Json ''Failed to upload image to Google Drive.'' NoData)"
      and "tabs (snd (generatorlog_end_run e w b (Some f))) = tabs w"
      and "calls (snd (generatorlog_end_run e w b (Some f)))
            = calls w @ FilesCreate (originalname f)
                # (case files_create e of None \<Rightarrow> []
                   | Some d \<Rightarrow> [PermissionsCreate (file_id d)])"
      by (simp_all add: r uploadToGoogleDrive_tabs uploadToGoogleDrive_calls)
  next
    let ?q = "\<lparr>buffer = png, originalname = uuid e @ ''.png'', mimetype = ''image/png''\<rparr>"
    assume h: "truthy (js_get b ''fileName'') \<and> truthy (js_get b ''originatingDepartment'')
      \<and> truthy (js_get b ''createdBy'') \<and> toBuffer e = Some png
      \<and> fst (uploadToGoogleDrive e w ?q) = None"
    then have r: "filelog_register e w b
        = ((500, Json ''Failed to upload QR Code to Google Drive.'' NoData),
           snd (uploadToGoogleDrive e w ?q))"
      by (auto simp: filelog_register_def Let_def split: prod.splits option.splits)
    show "fst (filelog_register e w b)
          = (500, Json ''Failed to upload QR Code to Google Drive.'' NoData)"
      and "tabs (snd (filelog_register e w b)) = tabs w"
      and "calls (snd (filelog_register e w b))
            = calls w @ FilesCreate (uuid e @ ''.png'')
                # (case files_create e of None \<Rightarrow> []
                   | Some d \<Rightarrow> [PermissionsCreate (file_id d)])"
      by (simp_all add: r uploadToGoogleDrive_tabs uploadToGoogleDrive_calls)
qed

theorem failed_upload_appends_nothing_witness:
  "fst (uploadToGoogleDrive (example_env\<lparr>permissions_create := False\<rparr>) example_store example_photo)
     = None
   \<and> buslog_start_trip (example_env\<lparr>permissions_create := False\<rparr>) example_store
        [(''startingKm'', JStr ''120''), (''tripId'', JStr ''T1'')] (Some example_photo)
     = ((500, Json ''Failed to upload image to Google Drive.'' NoData),
        example_store\<lparr>calls := [FilesCreate ''dash.jpg'', PermissionsCreate ''drv1'']\<rparr>)
   \<and> generatorlog_start_run (example_env\<lparr>files_create := None\<rparr>) example_store
        [(''startingFuelLevel'', JStr ''80''), (''runId'', JStr ''R1'')] (Some example_photo)
     = ((500, Json ''Failed to upload image to Google Drive.'' NoData),
        example_store\<lparr>calls := [FilesCreate ''dash.jpg'']\<rparr>)"
  using failed_upload_appends_nothing [of
          "[(''startingKm'', JStr ''120''), (''tripId'', JStr ''T1'')]"
          "example_env\<lparr>permissions_create := False\<rparr>" example_store example_photo]
  by (simp add: example_env_def example_store_def example_photo_def buslog_start_trip_def
        generatorlog_start_run_def uploadToGoogleDrive_def js_get_def Let_def)

subsection \<open>Lists\<close>

text \<open>
  Claim C10. When the Sheets service answers and the tab is empty or holds its header
  row only, the list routes (departments, employees, students, students of a
  department) answer 200 with an empty \<open>data\<close> array.
\<close>

theorem empty_table_lists_empty:
  assumes "sheets_up e"
  shows
    "(length (tabs w Departments) \<le> 1 \<longrightarrow>
        fst (departments_list e w) = (200, Json ''No departments found.'' (Rows [])))
   \<and> (length (tabs w Employees) \<le> 1 \<longrightarrow>
        fst (employees_list e w) = (200, Json ''No employees found.'' (Rows [])))
   \<and> (length (tabs w Students) \<le> 1 \<longrightarrow>
        fst (students_list e w) = (200, Json ''No students found.'' (Rows []))
        \<and> fst (students_list_by_department e w departmentId)
            = (200, Json ''No students found.'' (Rows [])))"
  using assms
  by (simp add: departments_list_def employees_list_def students_list_def
        students_list_by_department_def values_get_def Let_def)

theorem empty_table_lists_empty_witness:
  "fst (employees_list example_env example_store) = (200, Json ''No employees found.'' (Rows []))
   \<and> fst (students_list_by_department example_env
            (example_store\<lparr>tabs := (tabs example_store)(Students := [hd example_students])\<rparr>) ''D1'')
       = (200, Json ''No students found.'' (Rows []))"
  using empty_table_lists_empty [of example_env example_store]
        empty_table_lists_empty [of example_env
          "example_store\<lparr>tabs := (tabs example_store)(Students := [hd example_students])\<rparr>" "''D1''"]
  by (simp add: example_env_def example_store_def)

subsection \<open>Records built from rows\<close>

lemma map_of_fold_update:
  "map_of (fold (\<lambda>(k, i) ob. AList.update k (g i) ob) ps al)
     = map_of al ++ map_of (rev (map (\<lambda>(k, i). (k, g i)) ps))"
proof (induction ps arbitrary: al)
  case Nil
  then show ?case by simp
next
  case (Cons p ps)
  obtain k i where p: "p = (k, i)" by (cases p)
  let ?f = "\<lambda>(k, i) ob. AList.update k (g i) ob"
  let ?m = "map_of (rev (map (\<lambda>(k, i). (k, g i)) ps))"
  have "map_of (fold ?f (p # ps) al) = map_of (fold ?f ps (AList.update k (g i) al))"
    by (simp add: p)
  also have "\<dots> = map_of (AList.update k (g i) al) ++ ?m"
    by (rule Cons.IH)
  also have "\<dots> = (map_of al)(k \<mapsto> g i) ++ ?m"
    by (simp only: AList.update_conv')
  also have "\<dots> = map_of al ++ ([k \<mapsto> g i] ++ ?m)"
    by (rule ext) (simp add: map_add_def split: option.splits)
  also have "[k \<mapsto> g i] ++ ?m = map_of (rev (map (\<lambda>(k, i). (k, g i)) (p # ps)))"
    by (simp add: p)
  finally show ?case .
qed

lemma map_of_row_record:
  "map_of (row_record fill hs r)
     = map_of (rev (zip hs (map (\<lambda>i. fill (cell r i)) [0..<length hs])))"
  by (simp add: row_record_def map_of_fold_update zip_map2)

lemma map_of_rev_zip_once:
  "length vs = length hs \<Longrightarrow> count_list hs k = 1 \<Longrightarrow>
   map_of (rev (zip hs vs)) k = map_of (zip hs vs) k"
proof (induction hs arbitrary: vs)
  case Nil
  then show ?case by simp
next
  case (Cons h hs)
  then obtain v vs' where vs: "vs = v # vs'" and len: "length vs' = length hs"
    by (cases vs) auto
  show ?case
  proof (cases "h = k")
    case True
    with Cons.prems have "count_list hs k = 0" by simp
    then have "k \<notin> set hs" by (simp add: count_list_0_iff)
    then have "map_of (rev (zip hs vs')) k = None"
      by (auto simp: map_of_eq_None_iff dest: set_zip_leftD)
    with True show ?thesis by (simp add: vs map_add_def)
  next
    case False
    with Cons.prems have "count_list hs k = 1" by simp
    then have "map_of (rev (zip hs vs')) k = map_of (zip hs vs') k"
      using len by (intro Cons.IH)
    with False show ?thesis by (simp add: vs map_add_def split: option.splits)
  qed
qed

lemma index_from_absent: "k \<notin> set hs \<Longrightarrow> index_from hs k n = - 1"
  by (induction hs arbitrary: n) auto

lemma index_from_present:
  "k \<in> set hs \<Longrightarrow> length vs = length hs \<Longrightarrow>
   \<exists>i < length hs. index_from hs k n = int (n + i) \<and> hs ! i = k
      \<and> map_of (zip hs vs) k = Some (vs ! i)"
proof (induction hs arbitrary: n vs)
  case Nil
  then show ?case by simp
next
  case (Cons h hs)
  from Cons.prems(2) obtain v vs' where vs: "vs = v # vs'" and len: "length vs' = length hs"
    by (cases vs) auto
  show ?case
  proof (cases "h = k")
    case True
    then show ?thesis by (intro exI [of _ 0]) (simp add: vs)
  next
    case False
    with Cons.prems have "k \<in> set hs" by simp
    from Cons.IH [OF this len, of "Suc n"] obtain i where i: "i < length hs"
      "index_from hs k (Suc n) = int (Suc n + i)" "hs ! i = k"
      "map_of (zip hs vs') k = Some (vs' ! i)"
      by blast
    with False show ?thesis by (intro exI [of _ "Suc i"]) (simp add: vs)
  qed
qed

lemma js_get_row_record:
  assumes "count_list hs k = 1"
  shows "\<exists>i < length hs. indexOf hs k = int i
           \<and> js_get (row_record fill hs r) k = fill (cell r i)"
proof -
  let ?vs = "map (\<lambda>i. fill (cell r i)) [0..<length hs]"
  from assms have "k \<in> set hs"
    using count_list_0_iff [of hs k] by auto
  from index_from_present [OF this, of ?vs 0] obtain i where i: "i < length hs"
    "index_from hs k 0 = int i"
    "map_of (zip hs ?vs) k = Some (?vs ! i)"
    by auto
  from i(1,3) have "map_of (zip hs ?vs) k = Some (fill (cell r i))" by simp
  moreover have "map_of (rev (zip hs ?vs)) k = map_of (zip hs ?vs) k"
    using assms by (intro map_of_rev_zip_once) simp_all
  ultimately have "js_get (row_record fill hs r) k = fill (cell r i)"
    by (simp add: js_get_def map_of_row_record)
  with i(1,2) show ?thesis by (auto simp: indexOf_def)
qed

lemma js_or_empty_text: "\<exists>s. js_or (cell r i) (JStr []) = JStr s"
  by (simp add: js_or_def cell_def)

lemma filled_record_text:
  assumes "h \<in> set hs"
  shows "\<exists>s. map_of (row_record (\<lambda>v. js_or v (JStr [])) hs r) h = Some (JStr s)"
proof -
  let ?vs = "map (\<lambda>i. js_or (cell r i) (JStr [])) [0..<length hs]"
  have m: "map fst (zip hs ?vs) = hs" by (rule map_fst_zip) simp
  have "fst ` set (zip hs ?vs) = set hs"
    using arg_cong [OF m, of set] by (simp only: set_map)
  with assms have "h \<in> fst ` set (rev (zip hs ?vs))" by simp
  then obtain x where x: "map_of (rev (zip hs ?vs)) h = Some x"
    by (cases "map_of (rev (zip hs ?vs)) h") (auto simp: map_of_eq_None_iff)
  then have "(h, x) \<in> set (zip hs ?vs)" by (auto dest: map_of_SomeD)
  then have "x \<in> set ?vs" by (rule set_zip_rightD)
  then obtain s where "x = JStr s" using js_or_empty_text by auto
  with x show ?thesis by (simp add: map_of_row_record)
qed

text \<open>
  Claim C2. The student list fills the cells a short row lacks with the empty text, and
  says so in a comment; the department list (and the employee list, the same text)
  stores \<open>row[index]\<close> as it is. On the example tab, whose row \<open>d2\<close> has two
  cells under a header of seven, the department list answers a record whose other five
  fields are \<open>undefined\<close>: the claim fails there, and the sibling route shows what
  was meant.
\<close>

theorem departments_list_short_row_undefined:
  "fst (departments_list example_env example_store) =
     (200, Json ''Departments retrieved successfully.''
        (Rows [[(''DepartmentID'', JStr ''d1''), (''DepartmentName'', JStr ''Sales''),
                (''Description'', JStr ''''), (''Location'', JStr ''North''),
                (''InChargeEmployeeID'', JStr ''''), (''CreatedAt'', JStr ''t0''),
                (''UpdatedAt'', JStr ''t0'')],
               [(''DepartmentID'', JStr ''d2''), (''DepartmentName'', JStr ''Ops''),
                (''Description'', JUndefined), (''Location'', JUndefined),
                (''InChargeEmployeeID'', JUndefined), (''CreatedAt'', JUndefined),
                (''UpdatedAt'', JUndefined)],
               [(''DepartmentID'', JStr ''d1''), (''DepartmentName'', JStr ''Copy''),
                (''Description'', JStr ''''), (''Location'', JStr ''South''),
                (''InChargeEmployeeID'', JStr ''''), (''CreatedAt'', JStr ''t1''),
                (''UpdatedAt'', JStr ''t1'')]]))"
  by (simp add: departments_list_def values_get_def example_env_def example_store_def
        example_departments_def row_record_def cell_def Let_def upt_rec)

text \<open>The student list does what the claim says, on every tab with a data row.\<close>

lemma students_list_fills_missing_cells:
  assumes "sheets_up e" and "1 < length (tabs w Students)"
  shows "\<exists>rs. fst (students_list e w) = (200, Json ''Students retrieved successfully.'' (Rows rs))
           \<and> length rs = length (tabs w Students) - 1
           \<and> (\<forall>ob \<in> set rs. \<forall>h \<in> set (take 10 (hd (tabs w Students))).
                 \<exists>s. js_get ob h = JStr s)"
proof -
  let ?rows = "map (take 10) (tabs w Students)"
  let ?rs = "map (row_record (\<lambda>v. js_or v (JStr [])) (hd ?rows)) (tl ?rows)"
  from assms(2) have ne: "tabs w Students \<noteq> []" by auto
  then have hd: "hd ?rows = take 10 (hd (tabs w Students))" by (simp add: hd_map)
  have "fst (students_list e w) = (200, Json ''Students retrieved successfully.'' (Rows ?rs))"
    using assms ne by (simp add: students_list_def values_get_def Let_def)
  moreover have "length ?rs = length (tabs w Students) - 1" by simp
  moreover have "\<forall>ob \<in> set ?rs. \<forall>h \<in> set (take 10 (hd (tabs w Students))).
                 \<exists>s. js_get ob h = JStr s"
  proof (intro ballI)
    fix ob h
    assume "ob \<in> set ?rs" and h: "h \<in> set (take 10 (hd (tabs w Students)))"
    then obtain r where "ob = row_record (\<lambda>v. js_or v (JStr [])) (hd ?rows) r" by auto
    with filled_record_text [of h "hd ?rows" r] h hd
    show "\<exists>s. js_get ob h = JStr s" by (auto simp: js_get_def)
  qed
  ultimately show ?thesis by blast
qed

text \<open>
  Claim C5, as stated, fails on three kinds of input: a header row without a
  \<open>DepartmentID\<close> column (the filtered list answers 500, the full list 200), a
  header row naming \<open>DepartmentID\<close> twice (the filter reads the first column, the
  record holds the last), and the empty text as value when a row is too short to have
  the cell (the record then holds the empty text, the filter sees \<open>undefined\<close>).
\<close>

theorem filtered_list_counterexample:
  "response_rows (fst (students_list_by_department example_env example_no_department_column ''D1''))
     \<noteq> map_option (filter (in_department ''D1''))
          (response_rows (fst (students_list example_env example_no_department_column)))
   \<and> response_rows (fst (students_list_by_department example_env example_two_department_columns ''D1''))
     \<noteq> map_option (filter (in_department ''D1''))
          (response_rows (fst (students_list example_env example_two_department_columns)))
   \<and> response_rows (fst (students_list_by_department example_env example_missing_department_cell ''''))
     \<noteq> map_option (filter (in_department ''''))
          (response_rows (fst (students_list example_env example_missing_department_cell)))"
  by (simp add: students_list_by_department_def students_list_def values_get_def
        example_env_def example_no_department_column_def example_two_department_columns_def
        example_missing_department_cell_def
        response_rows_def in_department_def indexOf_def row_record_def cell_def js_get_def
        js_or_def Let_def upt_rec)

text \<open>
  Claim C5, amended. When the Sheets service answers, the value is not empty (a path
  segment never is), and the tab is empty, holds its header row only, or has a header
  row that names \<open>DepartmentID\<close> exactly once among its first ten columns, the
  full list answers 200 and the filtered list answers exactly the records of the full
  list whose \<open>DepartmentID\<close> is the value, in the same order.
\<close>

theorem filtered_list_is_filter_of_list:
  assumes up: "sheets_up e" and v: "departmentId \<noteq> []"
    and hdr: "length (tabs w Students) \<le> 1
              \<or> count_list (take 10 (hd (tabs w Students))) ''DepartmentID'' = 1"
  shows "response_rows (fst (students_list e w)) \<noteq> None
       \<and> response_rows (fst (students_list_by_department e w departmentId))
           = map_option (filter (in_department departmentId))
               (response_rows (fst (students_list e w)))"
proof (cases "length (tabs w Students) \<le> 1")
  case True
  with up show ?thesis
    by (simp add: students_list_def students_list_by_department_def values_get_def
          response_rows_def Let_def)
next
  case False
  let ?rows = "map (take 10) (tabs w Students)"
  let ?hs = "hd ?rows"
  let ?fill = "\<lambda>v. js_or v (JStr [])"
  from False have ne: "tabs w Students \<noteq> []" by auto
  then have hd: "?hs = take 10 (hd (tabs w Students))" by (simp add: hd_map)
  from False hdr hd have once: "count_list ?hs ''DepartmentID'' = 1" by simp
  from js_get_row_record [OF once, of ?fill "[]"] obtain i where
    i: "indexOf ?hs ''DepartmentID'' = int i" by blast
  have get: "js_get (row_record ?fill ?hs r) ''DepartmentID'' = ?fill (cell r i)" for r
    using js_get_row_record [OF once, of ?fill r] i by auto
  have same: "(?fill (cell r i) = JStr departmentId) = (cell r i = JStr departmentId)" for r
    using v by (auto simp: js_or_def cell_def)
  have l: "fst (students_list e w)
      = (200, Json ''Students retrieved successfully.''
           (Rows (map (row_record ?fill ?hs) (tl ?rows))))"
    using up False ne by (simp add: students_list_def values_get_def Let_def)
  have f: "response_rows (fst (students_list_by_department e w departmentId))
      = Some (map (row_record ?fill ?hs)
                (filter (\<lambda>r. cell r i = JStr departmentId) (tl ?rows)))"
    using up False ne i
    by (simp add: students_list_by_department_def values_get_def Let_def response_rows_def)
  have "filter (in_department departmentId)
          (map (row_record ?fill ?hs) (tl ?rows))
        = map (row_record ?fill ?hs) (filter (\<lambda>r. cell r i = JStr departmentId) (tl ?rows))"
    by (simp add: filter_map o_def in_department_def get same)
  with l f show ?thesis by (simp add: response_rows_def)
qed

theorem filtered_list_is_filter_of_list_witness:
  "count_list (take 10 (hd (tabs example_store Students))) ''DepartmentID'' = 1
   \<and> response_rows (fst (students_list_by_department example_env example_store ''D1''))
       = Some [[(''StudentID'', JStr ''s1''), (''StudentName'', JStr ''Ann''),
                (''RollNumber'', JStr ''11''), (''DepartmentID'', JStr ''D1''),
                (''Course'', JStr ''CS''), (''YearOfStudy'', JStr ''2''),
                (''Email'', JStr ''ann@x.org''), (''Phone'', JStr ''555''),
                (''CreatedAt'', JStr ''t0''), (''UpdatedAt'', JStr ''t0'')],
               [(''StudentID'', JStr ''s3''), (''StudentName'', JStr ''Cy''),
                (''RollNumber'', JStr ''13''), (''DepartmentID'', JStr ''D1''),
                (''Course'', JStr ''CS''), (''YearOfStudy'', JStr ''1''),
                (''Email'', JStr ''''), (''Phone'', JStr ''''),
                (''CreatedAt'', JStr ''t1''), (''UpdatedAt'', JStr ''t1'')]]
   \<and> response_rows (fst (students_list_by_department example_env example_store ''D1''))
       = map_option (filter (in_department ''D1''))
           (response_rows (fst (students_list example_env example_store)))"
  using filtered_list_is_filter_of_list [of example_env "''D1''" example_store]
  by (simp add: students_list_by_department_def values_get_def
        example_env_def example_store_def example_students_def
        response_rows_def indexOf_def row_record_def cell_def js_or_def Let_def upt_rec)

subsection \<open>File status\<close>

lemma filelog_status_general:
  assumes "sheets_up e"
  shows "(let headers = take 9 (hd (tabs w Movements));
              matching = filter (\<lambda>r. cell r 1 = JStr fileId)
                           (tl (map (take 9) (tabs w Movements)))
          in (matching = [] \<longrightarrow> fst (fst (filelog_status e w fileId)) = 404)
           \<and> (matching \<noteq> [] \<longrightarrow>
                fst (filelog_status e w fileId) =
                  (200, Json ''File history retrieved successfully.''
                     (History
                        [(''fileId'', JStr fileId),
                         (''currentStatus'',
                            js_get (row_record (\<lambda>v. v) headers (last matching)) ''Action''),
                         (''currentLocation'',
                            js_get (row_record (\<lambda>v. v) headers (last matching)) ''ToDepartment''),
                         (''lastUpdated'',
                            js_get (row_record (\<lambda>v. v) headers (last matching)) ''Timestamp'')]
                        (map (row_record (\<lambda>v. v) headers) matching)))))"
proof (cases "length (tabs w Movements) \<le> 1")
  case True
  then have "tl (map (take 9) (tabs w Movements)) = []"
    by (cases "tabs w Movements") auto
  with True assms show ?thesis
    by (simp add: filelog_status_def values_get_def Let_def)
next
  case False
  let ?rows = "map (take 9) (tabs w Movements)"
  let ?m = "filter (\<lambda>r. cell r 1 = JStr fileId) (tl ?rows)"
  from False have ne: "tabs w Movements \<noteq> []" by auto
  then have hd: "hd ?rows = take 9 (hd (tabs w Movements))" by (simp add: hd_map)
  have last: "?m \<noteq> [] \<Longrightarrow>
      map (row_record (\<lambda>v. v) (hd ?rows)) ?m ! (length ?m - 1)
        = row_record (\<lambda>v. v) (hd ?rows) (last ?m)"
    by (simp add: last_conv_nth)
  show ?thesis
    using assms False ne last
    by (simp add: filelog_status_def values_get_def Let_def hd del: One_nat_def)
qed

lemma filelog_register_ok:
  assumes "sheets_up e" and "toBuffer e = Some png" and "files_create e = Some d"
    and "permissions_create e"
    and "truthy (js_get b ''fileName'')" and "truthy (js_get b ''originatingDepartment'')"
    and "truthy (js_get b ''createdBy'')"
  shows "fst (fst (filelog_register e w b)) = 201"
    and "tabs (snd (filelog_register e w b)) Movements =
           tabs w Movements @
             [[now e, uuid e, ''REGISTERED'', '''',
               store_cell (js_get b ''originatingDepartment''),
               store_cell (js_get b ''createdBy''), '''', '''', ''File created.'']]"
  using assms
  by (simp_all add: filelog_register_def uploadToGoogleDrive_def values_append_def Let_def)

lemma filelog_forward_ok:
  assumes "sheets_up e"
    and "truthy (js_get b ''fileId'')" and "truthy (js_get b ''fromDepartment'')"
    and "truthy (js_get b ''toDepartment'')" and "truthy (js_get b ''forwardedBy'')"
  shows "fst (fst (filelog_forward e w b)) = 200"
    and "tabs (snd (filelog_forward e w b)) Movements =
           tabs w Movements @
             [[now e, store_cell (js_get b ''fileId''), ''FORWARDED'',
               store_cell (js_get b ''fromDepartment''), store_cell (js_get b ''toDepartment''),
               store_cell (js_get b ''forwardedBy''), store_cell (js_get b ''workDone''),
               store_cell (js_get b ''workToBeDone''), store_cell (js_get b ''remarks'')]]"
  using assms
  by (simp_all add: filelog_forward_def values_append_def Let_def)

lemma filelog_receive_ok:
  assumes "sheets_up e"
    and "truthy (js_get b ''fileId'')" and "truthy (js_get b ''receivingDepartment'')"
    and "truthy (js_get b ''receivedBy'')"
  shows "fst (fst (filelog_receive e w b)) = 200"
    and "tabs (snd (filelog_receive e w b)) Movements =
           tabs w Movements @
             [[now e, store_cell (js_get b ''fileId''), ''RECEIVED'', '''',
               store_cell (js_get b ''receivingDepartment''),
               store_cell (js_get b ''receivedBy''), '''', '''',
               store_cell (js_get b ''remarks'')]]"
  using assms
  by (simp_all add: filelog_receive_def values_append_def Let_def)

lemma js_get_action:
  assumes "count_list hs ''Action'' = 1" and "indexOf hs ''Action'' = 2"
  shows "js_get (row_record (\<lambda>v. v) hs r) ''Action'' = cell r 2"
  using js_get_row_record [OF assms(1), of "\<lambda>v. v" r] assms(2) by auto

lemma status_after_register_forward_receive:
  assumes up: "sheets_up e1" "sheets_up e2" "sheets_up e3" "sheets_up e4"
    and drive: "toBuffer e1 = Some png" "files_create e1 = Some d" "permissions_create e1"
    and b1: "truthy (js_get b1 ''fileName'')" "truthy (js_get b1 ''originatingDepartment'')"
            "truthy (js_get b1 ''createdBy'')"
    and b2: "js_get b2 ''fileId'' = JStr (uuid e1)" "truthy (js_get b2 ''fromDepartment'')"
            "truthy (js_get b2 ''toDepartment'')" "truthy (js_get b2 ''forwardedBy'')"
    and b3: "js_get b3 ''fileId'' = JStr (uuid e1)" "truthy (js_get b3 ''receivingDepartment'')"
            "truthy (js_get b3 ''receivedBy'')"
    and fid: "uuid e1 \<noteq> []"
    and tab: "tabs w Movements = header # old"
    and fresh: "list_all (\<lambda>r. cell r 1 \<noteq> JStr (uuid e1)) old"
    and hdr: "count_list (take 9 header) ''Action'' = 1" "indexOf (take 9 header) ''Action'' = 2"
    and w1: "w1 = snd (filelog_register e1 w b1)"
    and w2: "w2 = snd (filelog_forward e2 w1 b2)"
    and w3: "w3 = snd (filelog_receive e3 w2 b3)"
  shows "fst (fst (filelog_register e1 w b1)) = 201
       \<and> fst (fst (filelog_forward e2 w1 b2)) = 200
       \<and> fst (fst (filelog_receive e3 w2 b3)) = 200
       \<and> fst (fst (filelog_status e4 w3 (uuid e1))) = 200
       \<and> map (\<lambda>h. js_get h ''Action'') (history_of (fst (filelog_status e4 w3 (uuid e1))))
           = [JStr ''REGISTERED'', JStr ''FORWARDED'', JStr ''RECEIVED'']
       \<and> js_get (details_of (fst (filelog_status e4 w3 (uuid e1)))) ''currentStatus''
           = JStr ''RECEIVED''"
proof -
  let ?r1 = "[now e1, uuid e1, ''REGISTERED'', '''',
              store_cell (js_get b1 ''originatingDepartment''),
              store_cell (js_get b1 ''createdBy''), '''', '''', ''File created.'']"
  let ?r2 = "[now e2, uuid e1, ''FORWARDED'',
              store_cell (js_get b2 ''fromDepartment''), store_cell (js_get b2 ''toDepartment''),
              store_cell (js_get b2 ''forwardedBy''), store_cell (js_get b2 ''workDone''),
              store_cell (js_get b2 ''workToBeDone''), store_cell (js_get b2 ''remarks'')]"
  let ?r3 = "[now e3, uuid e1, ''RECEIVED'', '''',
              store_cell (js_get b3 ''receivingDepartment''),
              store_cell (js_get b3 ''receivedBy''), '''', '''',
              store_cell (js_get b3 ''remarks'')]"
  let ?hs = "take 9 header"
  have t2: "truthy (js_get b2 ''fileId'')" and t3: "truthy (js_get b3 ''fileId'')"
    using fid by (simp_all add: b2(1) b3(1))
  have s1: "fst (fst (filelog_register e1 w b1)) = 201"
    by (rule filelog_register_ok(1) [OF up(1) drive b1])
  have s2: "fst (fst (filelog_forward e2 w1 b2)) = 200"
    by (rule filelog_forward_ok(1) [OF up(2) t2 b2(2-4)])
  have s3: "fst (fst (filelog_receive e3 w2 b3)) = 200"
    by (rule filelog_receive_ok(1) [OF up(3) t3 b3(2-3)])
  have m1: "tabs w1 Movements = header # old @ [?r1]"
    unfolding w1 by (simp add: filelog_register_ok(2) [OF up(1) drive b1] tab)
  have m2: "tabs w2 Movements = header # old @ [?r1, ?r2]"
    unfolding w2 by (simp add: filelog_forward_ok(2) [OF up(2) t2 b2(2-4)] m1 b2(1))
  have m3: "tabs w3 Movements = header # old @ [?r1, ?r2, ?r3]"
    unfolding w3 by (simp add: filelog_receive_ok(2) [OF up(3) t3 b3(2-3)] m2 b3(1))
  have old: "filter (\<lambda>r. cell r 1 = JStr (uuid e1)) (map (take 9) old) = []"
    using fresh by (auto simp: filter_empty_conv list_all_iff cell_take)
  have matching: "filter (\<lambda>r. cell r 1 = JStr (uuid e1)) (tl (map (take 9) (tabs w3 Movements)))
      = [?r1, ?r2, ?r3]"
  proof -
    have "cell ?r1 1 = JStr (uuid e1)" "cell ?r2 1 = JStr (uuid e1)" "cell ?r3 1 = JStr (uuid e1)"
      by (simp_all add: cell_def)
    then show ?thesis using old by (simp add: m3)
  qed
  have hd: "take 9 (hd (tabs w3 Movements)) = ?hs" by (simp add: m3)
  have resp: "fst (filelog_status e4 w3 (uuid e1)) =
      (200, Json ''File history retrieved successfully.''
         (History
            [(''fileId'', JStr (uuid e1)),
             (''currentStatus'', js_get (row_record (\<lambda>v. v) ?hs ?r3) ''Action''),
             (''currentLocation'', js_get (row_record (\<lambda>v. v) ?hs ?r3) ''ToDepartment''),
             (''lastUpdated'', js_get (row_record (\<lambda>v. v) ?hs ?r3) ''Timestamp'')]
            (map (row_record (\<lambda>v. v) ?hs) [?r1, ?r2, ?r3])))"
    using filelog_status_general [OF up(4), of w3 "uuid e1"]
    unfolding Let_def matching hd by simp
  have a: "js_get (row_record (\<lambda>v. v) ?hs r) ''Action'' = cell r 2" for r
    by (rule js_get_action [OF hdr])
  have h: "map (\<lambda>h. js_get h ''Action'') (history_of (fst (filelog_status e4 w3 (uuid e1))))
           = [JStr ''REGISTERED'', JStr ''FORWARDED'', JStr ''RECEIVED'']"
    by (simp add: resp history_of_def a cell_def)
  have c: "js_get (details_of (fst (filelog_status e4 w3 (uuid e1)))) ''currentStatus''
           = JStr ''RECEIVED''"
    by (simp add: resp details_of_def a cell_def) (simp add: js_get_def)
  from s1 s2 s3 h c show ?thesis by (simp add: resp)
qed

text \<open>
  Claim C4. When the Sheets service answers, \<open>/status/:fileId\<close> keeps the rows
  below the header whose second cell is the file identifier; with none it answers 404,
  otherwise 200 with one history record per kept row, in table order, and with the
  current status, location and time read from the last kept row. After
  \<open>/register\<close>, \<open>/forward\<close> and \<open>/receive\<close> for one file identifier (all
  three succeeding, the identifier new to the log, and the log's header row naming its
  third column, and only that one, \<open>Action\<close>), the history is the three
  movements in call order and the current status is \<open>RECEIVED\<close>.
\<close>

theorem status_reports_last_matching_row:
  "(sheets_up e \<longrightarrow>
      (let headers = take 9 (hd (tabs w Movements));
           matching = filter (\<lambda>r. cell r 1 = JStr fileId)
                        (tl (map (take 9) (tabs w Movements)))
       in (matching = [] \<longrightarrow> fst (fst (filelog_status e w fileId)) = 404)
        \<and> (matching \<noteq> [] \<longrightarrow>
             fst (filelog_status e w fileId) =
               (200, Json ''File history retrieved successfully.''
                  (History
                     [(''fileId'', JStr fileId),
                      (''currentStatus'',
                         js_get (row_record (\<lambda>v. v) headers (last matching)) ''Action''),
                      (''currentLocation'',
                         js_get (row_record (\<lambda>v. v) headers (last matching)) ''ToDepartment''),
                      (''lastUpdated'',
                         js_get (row_record (\<lambda>v. v) headers (last matching)) ''Timestamp'')]
                     (map (row_record (\<lambda>v. v) headers) matching))))))
   \<and> (sheets_up e1 \<and> sheets_up e2 \<and> sheets_up e3 \<and> sheets_up e4
        \<and> toBuffer e1 = Some png \<and> files_create e1 = Some d \<and> permissions_create e1
        \<and> truthy (js_get b1 ''fileName'') \<and> truthy (js_get b1 ''originatingDepartment'')
        \<and> truthy (js_get b1 ''createdBy'')
        \<and> js_get b2 ''fileId'' = JStr (uuid e1) \<and> truthy (js_get b2 ''fromDepartment'')
        \<and> truthy (js_get b2 ''toDepartment'') \<and> truthy (js_get b2 ''forwardedBy'')
        \<and> js_get b3 ''fileId'' = JStr (uuid e1) \<and> truthy (js_get b3 ''receivingDepartment'')
        \<and> truthy (js_get b3 ''receivedBy'')
        \<and> uuid e1 \<noteq> []
        \<and> tabs w0 Movements = header # old
        \<and> list_all (\<lambda>r. cell r 1 \<noteq> JStr (uuid e1)) old
        \<and> count_list (take 9 header) ''Action'' = 1 \<and> indexOf (take 9 header) ''Action'' = 2
      \<longrightarrow>
      (let w1 = snd (filelog_register e1 w0 b1);
           w2 = snd (filelog_forward e2 w1 b2);
           w3 = snd (filelog_receive e3 w2 b3);
           res = fst (filelog_status e4 w3 (uuid e1))
       in fst (fst (filelog_register e1 w0 b1)) = 201
        \<and> fst (fst (filelog_forward e2 w1 b2)) = 200
        \<and> fst (fst (filelog_receive e3 w2 b3)) = 200
        \<and> fst res = 200
        \<and> history_actions res = [JStr ''REGISTERED'', JStr ''FORWARDED'', JStr ''RECEIVED'']
        \<and> js_get (details_of res) ''currentStatus'' = JStr ''RECEIVED''))"
proof (intro conjI impI)
  assume "sheets_up e"
  then show "let headers = take 9 (hd (tabs w Movements));
           matching = filter (\<lambda>r. cell r 1 = JStr fileId)
                        (tl (map (take 9) (tabs w Movements)))
       in (matching = [] \<longrightarrow> fst (fst (filelog_status e w fileId)) = 404)
        \<and> (matching \<noteq> [] \<longrightarrow>
             fst (filelog_status e w fileId) =
               (200, Json ''File history retrieved successfully.''
                  (History
                     [(''fileId'', JStr fileId),
                      (''currentStatus'',
                         js_get (row_record (\<lambda>v. v) headers (last matching)) ''Action''),
                      (''currentLocation'',
                         js_get (row_record (\<lambda>v. v) headers (last matching)) ''ToDepartment''),
                      (''lastUpdated'',
                         js_get (row_record (\<lambda>v. v) headers (last matching)) ''Timestamp'')]
                     (map (row_record (\<lambda>v. v) headers) matching))))"
    by (rule filelog_status_general)
next
  assume h: "sheets_up e1 \<and> sheets_up e2 \<and> sheets_up e3 \<and> sheets_up e4
        \<and> toBuffer e1 = Some png \<and> files_create e1 = Some d \<and> permissions_create e1
        \<and> truthy (js_get b1 ''fileName'') \<and> truthy (js_get b1 ''originatingDepartment'')
        \<and> truthy (js_get b1 ''createdBy'')
        \<and> js_get b2 ''fileId'' = JStr (uuid e1) \<and> truthy (js_get b2 ''fromDepartment'')
        \<and> truthy (js_get b2 ''toDepartment'') \<and> truthy (js_get b2 ''forwardedBy'')
        \<and> js_get b3 ''fileId'' = JStr (uuid e1) \<and> truthy (js_get b3 ''receivingDepartment'')
        \<and> truthy (js_get b3 ''receivedBy'')
        \<and> uuid e1 \<noteq> []
        \<and> tabs w0 Movements = header # old
        \<and> list_all (\<lambda>r. cell r 1 \<noteq> JStr (uuid e1)) old
        \<and> count_list (take 9 header) ''Action'' = 1 \<and> indexOf (take 9 header) ''Action'' = 2"
  define w1 where "w1 = snd (filelog_register e1 w0 b1)"
  define w2 where "w2 = snd (filelog_forward e2 w1 b2)"
  define w3 where "w3 = snd (filelog_receive e3 w2 b3)"
  have "fst (fst (filelog_register e1 w0 b1)) = 201
       \<and> fst (fst (filelog_forward e2 w1 b2)) = 200
       \<and> fst (fst (filelog_receive e3 w2 b3)) = 200
       \<and> fst (fst (filelog_status e4 w3 (uuid e1))) = 200
       \<and> map (\<lambda>h. js_get h ''Action'') (history_of (fst (filelog_status e4 w3 (uuid e1))))
           = [JStr ''REGISTERED'', JStr ''FORWARDED'', JStr ''RECEIVED'']
       \<and> js_get (details_of (fst (filelog_status e4 w3 (uuid e1)))) ''currentStatus''
           = JStr ''RECEIVED''"
    using h by (intro status_after_register_forward_receive [where png = png and d = d
          and header = header and old = old, OF _ _ _ _ _ _ _ _ _ _ _ _ _ _ _ _ _ _ _ _ _ _ w1_def w2_def w3_def])
      simp_all
  then show "let w1 = snd (filelog_register e1 w0 b1);
           w2 = snd (filelog_forward e2 w1 b2);
           w3 = snd (filelog_receive e3 w2 b3);
           res = fst (filelog_status e4 w3 (uuid e1))
       in fst (fst (filelog_register e1 w0 b1)) = 201
        \<and> fst (fst (filelog_forward e2 w1 b2)) = 200
        \<and> fst (fst (filelog_receive e3 w2 b3)) = 200
        \<and> fst res = 200
        \<and> history_actions res = [JStr ''REGISTERED'', JStr ''FORWARDED'', JStr ''RECEIVED'']
        \<and> js_get (details_of res) ''currentStatus'' = JStr ''RECEIVED''"
    by (simp add: Let_def history_actions_def w1_def w2_def w3_def)
qed

lemma sheets_up_example: "sheets_up example_env"
  by (simp add: example_env_def)

lemma example_movements_record:
  "row_record (\<lambda>v. v)
     [''Timestamp'', ''FileID'', ''Action'', ''FromDepartment'', ''ToDepartment'', ''User'',
      ''WorkDone'', ''WorkToBeDone'', ''Remarks'']
     [''t0'', ''f-0'', ''REGISTERED'', '''', ''Accounts'', ''eve'', '''', '''', ''File created.'']
   = [(''Timestamp'', JStr ''t0''), (''FileID'', JStr ''f-0''),
      (''Action'', JStr ''REGISTERED''), (''FromDepartment'', JStr ''''),
      (''ToDepartment'', JStr ''Accounts''), (''User'', JStr ''eve''),
      (''WorkDone'', JStr ''''), (''WorkToBeDone'', JStr ''''),
      (''Remarks'', JStr ''File created.'')]"
  by (simp add: row_record_def cell_def upt_rec)

theorem status_reports_last_matching_row_witness:
  "fst (fst (filelog_status example_env example_log ''f-9'')) = 404
   \<and> fst (filelog_status example_env example_log ''f-0'') =
       (200, Json ''File history retrieved successfully.''
          (History
             [(''fileId'', JStr ''f-0''), (''currentStatus'', JStr ''REGISTERED''),
              (''currentLocation'', JStr ''Accounts''), (''lastUpdated'', JStr ''t0'')]
             [[(''Timestamp'', JStr ''t0''), (''FileID'', JStr ''f-0''),
               (''Action'', JStr ''REGISTERED''), (''FromDepartment'', JStr ''''),
               (''ToDepartment'', JStr ''Accounts''), (''User'', JStr ''eve''),
               (''WorkDone'', JStr ''''), (''WorkToBeDone'', JStr ''''),
               (''Remarks'', JStr ''File created.'')]]))
   \<and> (let w1 = snd (filelog_register example_env example_log
                    [(''fileName'', JStr ''Budget''), (''originatingDepartment'', JStr ''Accounts''),
                     (''createdBy'', JStr ''ann'')]);
           w2 = snd (filelog_forward example_env w1
                    [(''fileId'', JStr ''f-1''), (''fromDepartment'', JStr ''Accounts''),
                     (''toDepartment'', JStr ''Audit''), (''forwardedBy'', JStr ''ann'')]);
           w3 = snd (filelog_receive example_env w2
                    [(''fileId'', JStr ''f-1''), (''receivingDepartment'', JStr ''Audit''),
                     (''receivedBy'', JStr ''bob'')]);
           res = fst (filelog_status example_env w3 ''f-1'')
       in fst (fst (filelog_register example_env example_log
                    [(''fileName'', JStr ''Budget''), (''originatingDepartment'', JStr ''Accounts''),
                     (''createdBy'', JStr ''ann'')])) = 201
        \<and> fst (fst (filelog_forward example_env w1
                    [(''fileId'', JStr ''f-1''), (''fromDepartment'', JStr ''Accounts''),
                     (''toDepartment'', JStr ''Audit''), (''forwardedBy'', JStr ''ann'')])) = 200
        \<and> fst (fst (filelog_receive example_env w2
                    [(''fileId'', JStr ''f-1''), (''receivingDepartment'', JStr ''Audit''),
                     (''receivedBy'', JStr ''bob'')])) = 200
        \<and> fst res = 200
        \<and> history_actions res = [JStr ''REGISTERED'', JStr ''FORWARDED'', JStr ''RECEIVED'']
        \<and> js_get (details_of res) ''currentStatus'' = JStr ''RECEIVED'')"
  (is "?unknown \<and> ?known \<and> ?scenario")
proof -
  have u: ?unknown
    using conjunct1 [OF status_reports_last_matching_row
            [where e = example_env and w = example_log and fileId = "''f-9''"]]
    by (simp add: example_env_def example_log_def example_movements_def cell_def)
  have m: "filter (\<lambda>r. cell r 1 = JStr ''f-0'') (tl (map (take 9) (tabs example_log Movements)))
      = [[''t0'', ''f-0'', ''REGISTERED'', '''', ''Accounts'', ''eve'', '''', '''',
          ''File created.'']]"
    by (simp add: example_log_def example_movements_def cell_def)
  have h: "take 9 (hd (tabs example_log Movements))
      = [''Timestamp'', ''FileID'', ''Action'', ''FromDepartment'', ''ToDepartment'', ''User'',
         ''WorkDone'', ''WorkToBeDone'', ''Remarks'']"
    by (simp add: example_log_def example_movements_def)
  note t = conjunct1 [OF status_reports_last_matching_row
            [where e = example_env and w = example_log and fileId = "''f-0''"],
            THEN mp, OF sheets_up_example, unfolded Let_def m h]
  have k: ?known using t by (simp add: example_movements_record js_get_def)
  have uid: "uuid example_env = ''f-1''" by (simp add: example_env_def)
  have hyps: "sheets_up example_env \<and> sheets_up example_env \<and> sheets_up example_env
        \<and> sheets_up example_env
        \<and> toBuffer example_env = Some ''png''
        \<and> files_create example_env = Some \<lparr>file_id = ''drv1'', webViewLink = ''https://drive/1''\<rparr>
        \<and> permissions_create example_env
        \<and> truthy (js_get [(''fileName'', JStr ''Budget''),
                            (''originatingDepartment'', JStr ''Accounts''),
                            (''createdBy'', JStr ''ann'')] ''fileName'')
        \<and> truthy (js_get [(''fileName'', JStr ''Budget''),
                            (''originatingDepartment'', JStr ''Accounts''),
                            (''createdBy'', JStr ''ann'')] ''originatingDepartment'')
        \<and> truthy (js_get [(''fileName'', JStr ''Budget''),
                            (''originatingDepartment'', JStr ''Accounts''),
                            (''createdBy'', JStr ''ann'')] ''createdBy'')
        \<and> js_get [(''fileId'', JStr ''f-1''), (''fromDepartment'', JStr ''Accounts''),
                    (''toDepartment'', JStr ''Audit''), (''forwardedBy'', JStr ''ann'')] ''fileId''
            = JStr (uuid example_env)
        \<and> truthy (js_get [(''fileId'', JStr ''f-1''), (''fromDepartment'', JStr ''Accounts''),
                    (''toDepartment'', JStr ''Audit''), (''forwardedBy'', JStr ''ann'')]
                    ''fromDepartment'')
        \<and> truthy (js_get [(''fileId'', JStr ''f-1''), (''fromDepartment'', JStr ''Accounts''),
                    (''toDepartment'', JStr ''Audit''), (''forwardedBy'', JStr ''ann'')]
                    ''toDepartment'')
        \<and> truthy (js_get [(''fileId'', JStr ''f-1''), (''fromDepartment'', JStr ''Accounts''),
                    (''toDepartment'', JStr ''Audit''), (''forwardedBy'', JStr ''ann'')]
                    ''forwardedBy'')
        \<and> js_get [(''fileId'', JStr ''f-1''), (''receivingDepartment'', JStr ''Audit''),
                    (''receivedBy'', JStr ''bob'')] ''fileId'' = JStr (uuid example_env)
        \<and> truthy (js_get [(''fileId'', JStr ''f-1''), (''receivingDepartment'', JStr ''Audit''),
                    (''receivedBy'', JStr ''bob'')] ''receivingDepartment'')
        \<and> truthy (js_get [(''fileId'', JStr ''f-1''), (''receivingDepartment'', JStr ''Audit''),
                    (''receivedBy'', JStr ''bob'')] ''receivedBy'')
        \<and> uuid example_env \<noteq> []
        \<and> tabs example_log Movements = hd example_movements # tl example_movements
        \<and> list_all (\<lambda>r. cell r 1 \<noteq> JStr (uuid example_env)) (tl example_movements)
        \<and> count_list (take 9 (hd example_movements)) ''Action'' = 1
        \<and> indexOf (take 9 (hd example_movements)) ''Action'' = 2"
    by (simp add: example_env_def example_log_def example_movements_def js_get_def
          indexOf_def cell_def)
  note t' = conjunct2 [OF status_reports_last_matching_row, THEN mp, OF hyps, unfolded uid]
  have s: ?scenario by (rule t')
  show ?thesis by (rule conjI [OF u conjI [OF k s]])
qed

end
